theory Spec2Isabelle
  imports Complex_Main "HOL-Library.Word" "HOL-Library.Log_Nat"
begin

section \<open>JavaScript numbers\<close>

text \<open>
  The program computes with JavaScript numbers (IEEE doubles).  The model computes
  with exact reals and keeps the three non-finite values a division can produce:
  a finite value is \<open>Num x\<close>; \<open>PInf\<close>, \<open>NInf\<close> and \<open>NaN\<close> are
  \<open>Infinity\<close>, \<open>-Infinity\<close> and \<open>NaN\<close>.  The sign of zero is not modelled (a zero
  divisor is read as \<open>+0\<close>).  Rounding error is modelled in the tempo estimate, whose
  rounded quotient depends on it (\<open>fl64\<close> below), and nowhere else.
  Clock readings (\<open>Date.now()\<close>) are integers of type \<open>int\<close>.
\<close>

datatype jsnum = Num real | PInf | NInf | NaN

fun js_neg :: "jsnum \<Rightarrow> jsnum" where
  "js_neg (Num a) = Num (- a)"
| "js_neg PInf = NInf"
| "js_neg NInf = PInf"
| "js_neg NaN = NaN"

fun js_add :: "jsnum \<Rightarrow> jsnum \<Rightarrow> jsnum" where
  "js_add (Num a) (Num b) = Num (a + b)"
| "js_add NaN _ = NaN"
| "js_add _ NaN = NaN"
| "js_add PInf NInf = NaN"
| "js_add NInf PInf = NaN"
| "js_add PInf _ = PInf"
| "js_add _ PInf = PInf"
| "js_add NInf _ = NInf"
| "js_add _ NInf = NInf"

definition js_sub :: "jsnum \<Rightarrow> jsnum \<Rightarrow> jsnum" where
  "js_sub a b = js_add a (js_neg b)"

text \<open>The sign of a finite factor decides the product with an infinity; zero gives NaN.\<close>

definition inf_times :: "bool \<Rightarrow> real \<Rightarrow> jsnum" where
  "inf_times positive b =
     (if b = 0 then NaN else if (0 < b) = positive then PInf else NInf)"

fun js_mul :: "jsnum \<Rightarrow> jsnum \<Rightarrow> jsnum" where
  "js_mul (Num a) (Num b) = Num (a * b)"
| "js_mul NaN _ = NaN"
| "js_mul _ NaN = NaN"
| "js_mul PInf (Num b) = inf_times True b"
| "js_mul NInf (Num b) = inf_times False b"
| "js_mul (Num a) PInf = inf_times True a"
| "js_mul (Num a) NInf = inf_times False a"
| "js_mul PInf PInf = PInf"
| "js_mul NInf NInf = PInf"
| "js_mul PInf NInf = NInf"
| "js_mul NInf PInf = NInf"

fun js_div :: "jsnum \<Rightarrow> jsnum \<Rightarrow> jsnum" where
  "js_div (Num a) (Num b) =
     (if b = 0 then (if 0 < a then PInf else if a < 0 then NInf else NaN)
      else Num (a / b))"
| "js_div NaN _ = NaN"
| "js_div _ NaN = NaN"
| "js_div (Num a) _ = Num 0"
| "js_div PInf (Num b) = (if b < 0 then NInf else PInf)"
| "js_div NInf (Num b) = (if b < 0 then PInf else NInf)"
| "js_div _ _ = NaN"

text \<open>\<open>a > b\<close>: false as soon as one side is NaN.\<close>

fun js_gt :: "jsnum \<Rightarrow> jsnum \<Rightarrow> bool" where
  "js_gt (Num a) (Num b) = (b < a)"
| "js_gt NaN _ = False"
| "js_gt _ NaN = False"
| "js_gt PInf PInf = False"
| "js_gt PInf _ = True"
| "js_gt _ PInf = False"
| "js_gt NInf _ = False"
| "js_gt _ NInf = True"

text \<open>\<open>Math.max\<close> and \<open>Math.min\<close>: NaN when an argument is NaN.\<close>

fun js_max :: "jsnum \<Rightarrow> jsnum \<Rightarrow> jsnum" where
  "js_max (Num a) (Num b) = Num (max a b)"
| "js_max NaN _ = NaN"
| "js_max _ NaN = NaN"
| "js_max PInf _ = PInf"
| "js_max _ PInf = PInf"
| "js_max NInf b = b"
| "js_max a NInf = a"

fun js_min :: "jsnum \<Rightarrow> jsnum \<Rightarrow> jsnum" where
  "js_min (Num a) (Num b) = Num (min a b)"
| "js_min NaN _ = NaN"
| "js_min _ NaN = NaN"
| "js_min NInf _ = NInf"
| "js_min _ NInf = NInf"
| "js_min PInf b = b"
| "js_min a PInf = a"

fun js_abs :: "jsnum \<Rightarrow> jsnum" where
  "js_abs (Num a) = Num \<bar>a\<bar>"
| "js_abs NaN = NaN"
| "js_abs _ = PInf"

fun js_sqrt :: "jsnum \<Rightarrow> jsnum" where
  "js_sqrt (Num a) = (if a < 0 then NaN else Num (sqrt a))"
| "js_sqrt PInf = PInf"
| "js_sqrt _ = NaN"

fun js_floor :: "jsnum \<Rightarrow> jsnum" where
  "js_floor (Num a) = Num (of_int \<lfloor>a\<rfloor>)"
| "js_floor a = a"

text \<open>Truthiness of a number: \<open>0\<close> and \<open>NaN\<close> are falsy.\<close>

fun js_truthy :: "jsnum \<Rightarrow> bool" where
  "js_truthy (Num a) = (a \<noteq> 0)"
| "js_truthy NaN = False"
| "js_truthy _ = True"

text \<open>\<open>Math.round\<close> of a finite number: the nearest integer, halves upwards.\<close>

definition js_round :: "real \<Rightarrow> int" where
  "js_round x = \<lfloor>x + 1 / 2\<rfloor>"

text \<open>
  The arithmetic of the tempo estimate is modelled with the rounding written out.
  \<open>fl64 x\<close> is the double nearest to \<open>x\<close> (53 significant bits, ties to the even
  significand), with no bound on the exponent: overflow and subnormal numbers are
  not modelled, and the estimate reaches neither.  A product, quotient or sum of two
  doubles is the \<open>fl64\<close> of the exact result, and the literal \<open>0.7\<close> is
  \<open>fl64 (7 / 10)\<close>.

  \<open>round_even\<close> rounds to the nearest integer, a half to the even one.
  \<open>exponentOf x\<close> is the binary exponent of \<open>x \<noteq> 0\<close>, the integer \<open>e\<close> with
  \<open>2^e \<le> \<bar>x\<bar> < 2^(e+1)\<close>, computed from the bit length of \<open>\<lfloor>\<bar>x\<bar>\<rfloor>\<close>, and of
  \<open>\<lceil>1 / \<bar>x\<bar>\<rceil> - 1\<close> below 1.  \<open>fl64\<close> scales \<open>x\<close> by a power of two into
  \<open>[2^52, 2^53)\<close>, rounds there and scales back.
\<close>

definition round_even :: "real \<Rightarrow> int" where
  "round_even y =
     (let f = \<lfloor>y\<rfloor>; r = y - of_int f
      in if r < 1 / 2 then f else if 1 / 2 < r then f + 1
         else if even f then f else f + 1)"

definition exponentOf :: "real \<Rightarrow> int" where
  "exponentOf x =
     (if 1 \<le> \<bar>x\<bar> then bitlen \<lfloor>\<bar>x\<bar>\<rfloor> - 1 else - bitlen (\<lceil>1 / \<bar>x\<bar>\<rceil> - 1))"

definition fl64 :: "real \<Rightarrow> real" where
  "fl64 x =
     (if x = 0 then 0
      else let s = 2 powi (52 - exponentOf x)
           in of_int (round_even (x * s)) / s)"

section \<open>AudioAnalyzer (js/audio-analyzer.js)\<close>

text \<open>A \<open>Uint8Array\<close> is a list of 8-bit words.\<close>

type_synonym byte = "8 word"

datatype js_error = TypeError | RangeError

datatype beat_type = Kick | Energy

text \<open>
  The object literals returned by \<open>calculateVolume\<close>, \<open>analyzeFrequency\<close>,
  \<open>calculateEnergy\<close> and \<open>detectBeat\<close>.  A key that an object literal leaves out
  (\<open>energy\<close>, \<open>kickEnergy\<close>, \<open>type\<close> of a beat) is \<open>None\<close>.  A field is a
  \<open>jsnum\<close> where the code can produce NaN or an infinity for it (a division by a
  length, by a number of bins or by a threshold), and a real where it cannot (a
  guarded mean, a maximum of finite values); \<open>bpm\<close> is an integer, 0 or the
  rounded and clamped estimate.  The keys \<open>average\<close>, \<open>max\<close> and \<open>rms\<close> of a
  volume carry the prefix \<open>vol_\<close>, the key \<open>type\<close> of a beat is \<open>btype\<close>, and the
  keys of an energy carry the prefix \<open>en_\<close>.
\<close>

record volume_data =
  vol_average :: jsnum
  vol_max :: real
  vol_rms :: jsnum
  level :: jsnum

record frequency_data =
  bass :: real
  mid :: real
  treble :: real
  peak :: real
  peakValue :: real
  totalEnergy :: jsnum
  spectralCentroid :: real
  brightness :: real

record energy_data =
  en_total :: jsnum
  en_bass :: jsnum
  en_kick :: jsnum

record beat_data =
  detected :: bool
  strength :: jsnum
  bpm :: int
  confidence :: jsnum
  energy :: "jsnum option"
  kickEnergy :: "jsnum option"
  btype :: "beat_type option"

record analysis_data =
  volume :: "volume_data option"
  frequency :: "frequency_data option"
  beat :: "beat_data option"
  timestamp :: int

text \<open>
  The fields of an \<open>AudioAnalyzer\<close> that the analysis reads or writes.
  \<open>analyserNode\<close> holds the node's \<open>frequencyBinCount\<close> and \<open>audioContext\<close> the
  context's \<open>sampleRate\<close>; \<open>None\<close> is \<open>null\<close> (or \<open>undefined\<close> for
  \<open>lastBeatTimestamp\<close>).  The fields of \<open>this.beatDetection\<close> carry the prefix
  \<open>bd_\<close>.  \<open>beatIntervals\<close> is created empty on the first call of
  \<open>estimateBPM\<close>, its only user, so it starts as the empty list.
\<close>

record AudioAnalyzer =
  isInitialized :: bool
  analyserNode :: "nat option"
  audioContext :: "nat option"
  frequencyData :: "byte list option"
  timeData :: "byte list option"
  previousFrequencyData :: "byte list option"
  bd_threshold :: real
  bd_minInterval :: int
  bd_lastBeatTime :: int
  bd_energyHistory :: "jsnum list"
  bd_historySize :: nat
  bd_variance :: jsnum
  bd_average :: jsnum
  bassLevel :: real
  midLevel :: real
  trebleLevel :: real
  beatIntervals :: "int list"
  lastBeatTimestamp :: "int option"

text \<open>The constructor.\<close>

definition new_AudioAnalyzer :: AudioAnalyzer where
  "new_AudioAnalyzer =
     \<lparr> isInitialized = False, analyserNode = None, audioContext = None,
       frequencyData = None, timeData = None, previousFrequencyData = None,
       bd_threshold = 13 / 10, bd_minInterval = 300, bd_lastBeatTime = 0,
       bd_energyHistory = [], bd_historySize = 43, bd_variance = Num 0, bd_average = Num 0,
       bassLevel = 0, midLevel = 0, trebleLevel = 0,
       beatIntervals = [], lastBeatTimestamp = None \<rparr>"

text \<open>
  \<open>init\<close> on a platform whose audio context runs at \<open>sr\<close> Hz and whose analyser
  has \<open>bins\<close> frequency bins (\<open>fftSize / 2\<close>, 1024 by default): the nodes are
  created and \<open>initBuffers\<close> allocates three zeroed arrays.
\<close>

definition init :: "nat \<Rightarrow> nat \<Rightarrow> AudioAnalyzer \<Rightarrow> AudioAnalyzer" where
  "init sr bins a =
     a\<lparr> audioContext := Some sr, analyserNode := Some bins,
        frequencyData := Some (replicate bins 0), timeData := Some (replicate bins 0),
        previousFrequencyData := Some (replicate bins 0), isInitialized := True \<rparr>"

text \<open>The frequency band limits of \<open>this.frequencyAnalysis\<close>, never reassigned.\<close>

definition bassRange :: "real \<times> real" where "bassRange = (20, 250)"
definition midRange :: "real \<times> real" where "midRange = (250, 4000)"
definition trebleRange :: "real \<times> real" where "trebleRange = (4000, 20000)"

subsection \<open>calculateVolume\<close>

definition calculateVolume :: "byte list \<Rightarrow> volume_data" where
  "calculateVolume data =
     (let (total, mx) =
            fold (\<lambda>b (total, mx).
                    let v = \<bar>real (unat b) - 128\<bar> / 128 in (total + v, max mx v))
                 data (0, 0);
          average = js_div (Num total) (Num (real (length data)));
          rms = js_sqrt (js_div (Num total) (Num (real (length data))))
      in \<lparr> vol_average = average, vol_max = mx, vol_rms = rms,
           level = js_min (js_mul rms (Num 2)) (Num 1) \<rparr>)"

subsection \<open>analyzeFrequency\<close>

text \<open>The magnitude \<open>data[i] / 255\<close> of a bin.\<close>

definition magnitude :: "byte list \<Rightarrow> nat \<Rightarrow> real" where
  "magnitude data i = real (unat (data ! i)) / 255"

definition binSize :: "nat \<Rightarrow> nat \<Rightarrow> real" where
  "binSize sr binCount = real sr / (2 * real binCount)"

text \<open>
  \<open>maxBin = Math.floor(maxFreq * binCount / (sampleRate / 2))\<close> with
  \<open>maxFreq = Math.min(5000, sampleRate / 2)\<close>.  At sample rate 0 the quotient is
  \<open>0 / 0\<close>, so \<open>maxBin\<close> is NaN (\<open>None\<close>): the loops then make no iteration.
\<close>

definition maxBin :: "nat \<Rightarrow> nat \<Rightarrow> nat option" where
  "maxBin sr binCount =
     (if sr = 0 then None
      else Some (nat \<lfloor>min 5000 (real sr / 2) * real binCount / (real sr / 2)\<rfloor>))"

text \<open>The bins \<open>i = 1, ..., maxBin - 1\<close> of both loops.\<close>

definition analysisBins :: "nat \<Rightarrow> nat \<Rightarrow> nat list" where
  "analysisBins sr binCount = (case maxBin sr binCount of None \<Rightarrow> [] | Some m \<Rightarrow> [1..<m])"

record band_acc =
  bassSum :: real
  bassCount :: nat
  midSum :: real
  midCount :: nat
  trebleSum :: real
  trebleCount :: nat
  peakFrequency :: real
  peakVal :: real
  totalE :: real

definition band_acc0 :: band_acc where
  "band_acc0 = \<lparr> bassSum = 0, bassCount = 0, midSum = 0, midCount = 0, trebleSum = 0,
                 trebleCount = 0, peakFrequency = 0, peakVal = 0, totalE = 0 \<rparr>"

text \<open>One pass of the body of the first loop, at bin \<open>i\<close>.\<close>

definition band_step :: "byte list \<Rightarrow> real \<Rightarrow> nat \<Rightarrow> band_acc \<Rightarrow> band_acc" where
  "band_step data bsz i acc =
     (let freq = real i * bsz;
          v = magnitude data i;
          acc1 = acc\<lparr> totalE := totalE acc + v * v \<rparr>;
          acc2 =
            (if fst bassRange \<le> freq \<and> freq \<le> snd bassRange
               then acc1\<lparr> bassSum := bassSum acc1 + v, bassCount := bassCount acc1 + 1 \<rparr>
             else if fst midRange \<le> freq \<and> freq \<le> snd midRange
               then acc1\<lparr> midSum := midSum acc1 + v, midCount := midCount acc1 + 1 \<rparr>
             else if fst trebleRange \<le> freq \<and> freq \<le> snd trebleRange
               then acc1\<lparr> trebleSum := trebleSum acc1 + v, trebleCount := trebleCount acc1 + 1 \<rparr>
             else acc1)
      in if peakVal acc2 < v then acc2\<lparr> peakVal := v, peakFrequency := freq \<rparr> else acc2)"

text \<open>One pass of the second loop (spectral centroid): the weighted sum and the weights.\<close>

definition centroid_step :: "byte list \<Rightarrow> real \<Rightarrow> nat \<Rightarrow> real \<times> real \<Rightarrow> real \<times> real" where
  "centroid_step data bsz i cw =
     (fst cw + real i * bsz * magnitude data i, snd cw + magnitude data i)"

text \<open>
  \<open>analyzeFrequency\<close> on the frame \<open>data\<close> (\<open>this.buffers.frequencyData\<close>) at
  sample rate \<open>sr\<close> (\<open>this.audioContext.sampleRate\<close>); it stores the three band
  levels in the analyzer.  \<open>totalEnergy / maxBin\<close> is the only division whose
  divisor can be zero or NaN.
\<close>

definition analyzeFrequency ::
  "byte list \<Rightarrow> nat \<Rightarrow> AudioAnalyzer \<Rightarrow> frequency_data \<times> AudioAnalyzer" where
  "analyzeFrequency data sr a =
     (let binCount = length data;
          bsz = binSize sr binCount;
          acc = fold (band_step data bsz) (analysisBins sr binCount) band_acc0;
          bassL = (if 0 < bassCount acc then bassSum acc / real (bassCount acc) else 0);
          midL = (if 0 < midCount acc then midSum acc / real (midCount acc) else 0);
          trebleL = (if 0 < trebleCount acc then trebleSum acc / real (trebleCount acc) else 0);
          a' = a\<lparr> bassLevel := bassL, midLevel := midL, trebleLevel := trebleL \<rparr>;
          cw = fold (centroid_step data bsz) (analysisBins sr binCount) (0, 0);
          centroid = (if 0 < snd cw then fst cw / snd cw else 0)
      in (\<lparr> bass = bassL, mid = midL, treble = trebleL,
            peak = peakFrequency acc, peakValue = peakVal acc,
            totalEnergy =
              (case maxBin sr binCount of
                 None \<Rightarrow> NaN
               | Some m \<Rightarrow> js_div (Num (totalE acc)) (Num (real m))),
            spectralCentroid = centroid,
            brightness = trebleL / (bassL + 1 / 1000) \<rparr>, a'))"

subsection \<open>calculateEnergy\<close>

text \<open>
  \<open>Math.floor(f * binCount / (sampleRate / 2))\<close> for a sample rate that is not 0.
\<close>

definition binOf :: "real \<Rightarrow> nat \<Rightarrow> nat \<Rightarrow> nat" where
  "binOf f binCount sr = nat \<lfloor>f * real binCount / (real sr / 2)\<rfloor>"

text \<open>
  The loop \<open>for (i = startBin; i < endBin && i < data.length; i++)\<close> visits these
  bins.
\<close>

definition energyBins :: "byte list \<Rightarrow> nat \<Rightarrow> nat list" where
  "energyBins data sr =
     [binOf 20 (length data) sr ..< min (binOf 4000 (length data) sr) (length data)]"

definition energy_step ::
  "byte list \<Rightarrow> nat \<Rightarrow> nat \<Rightarrow> real \<times> real \<times> real \<Rightarrow> real \<times> real \<times> real" where
  "energy_step data sr i acc =
     (case acc of (totalEn, bassEn, kickEn) \<Rightarrow>
        let v = magnitude data i;
            energyValue = v * v;
            n = length data
        in (totalEn + energyValue,
            (if binOf 20 n sr \<le> i \<and> i \<le> binOf 250 n sr
               then bassEn + energyValue else bassEn),
            (if binOf 60 n sr \<le> i \<and> i \<le> binOf 120 n sr
               then kickEn + energyValue else kickEn)))"

text \<open>
  At sample rate 0 every bin index is \<open>Infinity\<close> or NaN: the loop makes no
  iteration and each divisor is NaN, so all three results are NaN.  Otherwise the
  divisors are differences of bin indices, which can be 0.
\<close>

definition calculateEnergy :: "byte list \<Rightarrow> nat \<Rightarrow> energy_data" where
  "calculateEnergy data sr =
     (if sr = 0 then \<lparr> en_total = NaN, en_bass = NaN, en_kick = NaN \<rparr>
      else
        (case fold (energy_step data sr) (energyBins data sr) (0, 0, 0) of
           (totalEn, bassEn, kickEn) \<Rightarrow>
             let n = length data in
             \<lparr> en_total = js_div (Num totalEn)
                             (Num (real (binOf 4000 n sr) - real (binOf 20 n sr))),
               en_bass = js_div (Num bassEn)
                            (Num (real (binOf 250 n sr) - real (binOf 20 n sr))),
               en_kick = js_div (Num kickEn)
                            (Num (real (binOf 120 n sr) - real (binOf 60 n sr))) \<rparr>))"

subsection \<open>estimateBPM\<close>

text \<open>
  \<open>currentTime\<close> is the reading of \<open>Date.now()\<close> inside \<open>estimateBPM\<close>.  The test
  \<open>if (this.lastBeatTimestamp)\<close> fails for \<open>undefined\<close> and for the number 0.
\<close>

definition recordInterval :: "int \<Rightarrow> AudioAnalyzer \<Rightarrow> int list" where
  "recordInterval currentTime a =
     (case lastBeatTimestamp a of
        None \<Rightarrow> beatIntervals a
      | Some t \<Rightarrow>
          if t = 0 then beatIntervals a
          else
            let interval = currentTime - t in
            if bd_minInterval a \<le> interval \<and> interval \<le> 2000
            then (let pushed = beatIntervals a @ [interval]
                  in if 20 < length pushed then tl pushed else pushed)
            else beatIntervals a)"

text \<open>
  The BPM of at least four stored intervals.  The sum of the intervals is an integer
  and exact; every other operation rounds.  \<open>60000 / finalInterval\<close> is
  \<open>Infinity\<close> when the divisor is 0, which the final clamp turns into 200.
  \<open>Math.round\<close> of the quotient is exact.
\<close>

definition bpmOf :: "int list \<Rightarrow> int" where
  "bpmOf intervals =
     (let sortedIntervals = sort intervals;
          medianInterval = sortedIntervals ! (length sortedIntervals div 2);
          avgInterval = fl64 (real_of_int (sum_list intervals) / real (length intervals));
          finalInterval = fl64 (fl64 (real_of_int medianInterval * fl64 (7 / 10))
                                + fl64 (avgInterval * fl64 (3 / 10)))
      in if finalInterval = 0 then 200
         else max 60 (min 200 (js_round (fl64 (60000 / finalInterval)))))"

definition estimateBPM :: "int \<Rightarrow> AudioAnalyzer \<Rightarrow> int \<times> AudioAnalyzer" where
  "estimateBPM currentTime a =
     (let a' = a\<lparr> beatIntervals := recordInterval currentTime a,
                  lastBeatTimestamp := Some currentTime \<rparr>
      in if 4 \<le> length (beatIntervals a') then (bpmOf (beatIntervals a'), a')
         else (0, a'))"

subsection \<open>detectBeat\<close>

definition noBeat :: beat_data where
  "noBeat = \<lparr> detected = False, strength = Num 0, bpm = 0, confidence = Num 0,
              energy = None, kickEnergy = None, btype = None \<rparr>"

text \<open>\<open>energyHistory.push(currentEnergy)\<close>, then \<open>shift()\<close> when over the size.\<close>

definition pushEnergy :: "jsnum \<Rightarrow> AudioAnalyzer \<Rightarrow> jsnum list" where
  "pushEnergy e a =
     (let pushed = bd_energyHistory a @ [e]
      in if bd_historySize a < length pushed then tl pushed else pushed)"

definition historyAverage :: "jsnum list \<Rightarrow> jsnum" where
  "historyAverage h = js_div (foldl js_add (Num 0) h) (Num (real (length h)))"

definition historyVariance :: "jsnum list \<Rightarrow> jsnum \<Rightarrow> jsnum" where
  "historyVariance h avg =
     js_div (foldl (\<lambda>acc v. js_add acc (js_mul (js_sub v avg) (js_sub v avg))) (Num 0) h)
            (Num (real (length h)))"

text \<open>
  \<open>detectBeat\<close> on the frame \<open>data\<close> at sample rate \<open>sr\<close>.  \<open>currentTime\<close> is its
  own reading of \<open>Date.now()\<close>, \<open>bpmTime\<close> the later reading made by
  \<open>estimateBPM\<close> when a beat is detected.
\<close>

definition detectBeat ::
  "int \<Rightarrow> int \<Rightarrow> byte list \<Rightarrow> nat \<Rightarrow> AudioAnalyzer \<Rightarrow> beat_data \<times> AudioAnalyzer" where
  "detectBeat currentTime bpmTime data sr a =
     (if currentTime - bd_lastBeatTime a < bd_minInterval a then (noBeat, a)
      else
        let energyData = calculateEnergy data sr;
            currentEnergy = en_total energyData;
            kickE = en_kick energyData;
            h = pushEnergy currentEnergy a;
            full = (bd_historySize a \<le> length h);
            avg = (if full then historyAverage h else bd_average a);
            var = (if full then historyVariance h avg else bd_variance a);
            a1 = a\<lparr> bd_energyHistory := h, bd_average := avg, bd_variance := var \<rparr>;
            thr = js_mul avg (Num (bd_threshold a));
            kickThreshold = js_mul avg (Num (8 / 10));
            energyBeat = (js_gt currentEnergy thr \<and> js_gt var (Num (1 / 100)));
            kickBeat = js_gt kickE kickThreshold
        in if energyBeat \<or> kickBeat then
             (case estimateBPM bpmTime (a1\<lparr> bd_lastBeatTime := currentTime \<rparr>) of
                (b, a2) \<Rightarrow>
                  let energyStrength =
                        (if energyBeat then js_div (js_sub currentEnergy thr) thr else Num 0);
                      kickStrength =
                        (if kickBeat then js_div (js_sub kickE kickThreshold) kickThreshold
                         else Num 0)
                  in (\<lparr> detected = True,
                        strength = js_min (js_max energyStrength kickStrength) (Num 1),
                        bpm = b,
                        confidence = js_min (js_mul var (Num 10)) (Num 1),
                        energy = Some currentEnergy, kickEnergy = Some kickE,
                        btype = Some (if kickBeat then Kick else Energy) \<rparr>, a2))
           else
             (\<lparr> detected = False, strength = Num 0, bpm = 0, confidence = Num 0,
                energy = Some currentEnergy, kickEnergy = Some kickE, btype = None \<rparr>, a1))"

subsection \<open>updateHistory and calculateSpectralFlux\<close>

text \<open>
  \<open>previous.set(current)\<close> copies the current frame over the start of the previous
  one; a source longer than the target raises a RangeError.
\<close>

definition updateHistory :: "byte list \<Rightarrow> byte list \<Rightarrow> js_error + byte list" where
  "updateHistory current previous =
     (if length previous < length current then Inl RangeError
      else Inr (current @ drop (length current) previous))"

text \<open>
  One pass of the loop of \<open>calculateSpectralFlux\<close>.  A read of \<open>previous[i]\<close> past
  its end is \<open>undefined\<close>, the difference NaN and the test \<open>diff > 0\<close> false.
\<close>

definition flux_step :: "byte list \<Rightarrow> byte list \<Rightarrow> nat \<Rightarrow> real \<Rightarrow> real" where
  "flux_step current previous i flux =
     (if i < length previous
      then (let diff = magnitude current i - magnitude previous i
            in if 0 < diff then flux + diff else flux)
      else flux)"

text \<open>
  The loop runs over the same bins as that of \<open>calculateEnergy\<close>
  (\<open>startBin\<close> to \<open>endBin\<close>, below \<open>current.length\<close>).
\<close>

definition calculateSpectralFlux :: "byte list \<Rightarrow> byte list option \<Rightarrow> nat \<Rightarrow> jsnum" where
  "calculateSpectralFlux current previousOpt sr =
     (case previousOpt of
        None \<Rightarrow> Num 0
      | Some previous \<Rightarrow>
          if sr = 0 then NaN
          else js_div (Num (fold (flux_step current previous) (energyBins current sr) 0))
                 (Num (real (binOf 4000 (length current) sr)
                        - real (binOf 20 (length current) sr))))"

subsection \<open>getAnalysisData\<close>

text \<open>
  What one tick reads from outside: the frames the analyser node writes into the two
  buffers, and the three readings of \<open>Date.now()\<close> (in \<open>detectBeat\<close>, in
  \<open>estimateBPM\<close> and for the result's \<open>timestamp\<close>).
\<close>

record tick =
  freqFrame :: "byte list"
  timeFrame :: "byte list"
  t_detect :: int
  t_bpm :: int
  t_result :: int

text \<open>
  \<open>getByteFrequencyData(buffer)\<close> overwrites the buffer with the frame, as far as
  both reach; the buffer keeps its length.
\<close>

definition fillBuffer :: "byte list \<Rightarrow> byte list \<Rightarrow> byte list" where
  "fillBuffer buffer frame = take (length buffer) frame @ drop (length frame) buffer"

text \<open>
  The body of the \<open>try\<close> block.  It returns the result object together with the
  local constant \<open>spectralFlux\<close>, which the result object does not contain.  A
  \<open>null\<close> buffer or audio context raises a TypeError at the statement that uses
  it; the fields written before that keep their new contents.
\<close>

definition analysisBody ::
  "tick \<Rightarrow> AudioAnalyzer \<Rightarrow> (js_error + analysis_data \<times> jsnum) \<times> AudioAnalyzer" where
  "analysisBody tk a =
     (case frequencyData a of
        None \<Rightarrow> (Inl TypeError, a)
      | Some fbuf \<Rightarrow>
          let data = fillBuffer fbuf (freqFrame tk);
              a1 = a\<lparr> frequencyData := Some data \<rparr>
          in case timeData a1 of
               None \<Rightarrow> (Inl TypeError, a1)
             | Some tbuf \<Rightarrow>
                 let tdata = fillBuffer tbuf (timeFrame tk);
                     a2 = a1\<lparr> timeData := Some tdata \<rparr>;
                     vol = calculateVolume tdata
                 in case audioContext a2 of
                      None \<Rightarrow> (Inl TypeError, a2)
                    | Some sr \<Rightarrow>
                        (case analyzeFrequency data sr a2 of
                           (freq, a3) \<Rightarrow>
                             (case detectBeat (t_detect tk) (t_bpm tk) data sr a3 of
                                (bt, a4) \<Rightarrow>
                                  (case previousFrequencyData a4 of
                                     None \<Rightarrow> (Inl TypeError, a4)
                                   | Some previous \<Rightarrow>
                                       (case updateHistory data previous of
                                          Inl e \<Rightarrow> (Inl e, a4)
                                        | Inr previous' \<Rightarrow>
                                            let a5 = a4\<lparr> previousFrequencyData := Some previous' \<rparr>;
                                                spectralFlux =
                                                  calculateSpectralFlux data
                                                    (previousFrequencyData a5) sr
                                            in (Inr (\<lparr> volume = Some vol, frequency = Some freq,
                                                       beat = Some bt,
                                                       timestamp = t_result tk \<rparr>,
                                                     spectralFlux), a5))))))"

text \<open>\<open>getAnalysisData\<close>: \<open>None\<close> is the return value \<open>null\<close>.\<close>

definition getAnalysisData ::
  "tick \<Rightarrow> AudioAnalyzer \<Rightarrow> analysis_data option \<times> AudioAnalyzer" where
  "getAnalysisData tk a =
     (if \<not> isInitialized a \<or> analyserNode a = None then (None, a)
      else
        (case analysisBody tk a of
           (Inl e, a') \<Rightarrow> (None, a')
         | (Inr (result, spectralFlux), a') \<Rightarrow> (Some result, a')))"

text \<open>The value of the local constant \<open>spectralFlux\<close> of a tick that completes.\<close>

definition tickSpectralFlux :: "tick \<Rightarrow> AudioAnalyzer \<Rightarrow> jsnum option" where
  "tickSpectralFlux tk a =
     (case fst (analysisBody tk a) of Inl e \<Rightarrow> None | Inr (result, spectralFlux) \<Rightarrow> Some spectralFlux)"

section \<open>VibrationController (js/vibration-controller.js)\<close>

text \<open>A vibration pattern: an array of durations or a single number.\<close>

datatype pattern = PArr "jsnum list" | PNum jsnum

text \<open>\<open>navigator.vibrate\<close> returns a boolean, or raises.\<close>

datatype nav_result = Returns bool | Throws

text \<open>
  The fields of a \<open>VibrationController\<close>.  The fields of \<open>this.config\<close> carry the
  prefix \<open>cfg_\<close>; \<open>avgLatency\<close> and \<open>latencyHistory\<close> belong to
  \<open>this.syncState\<close>.  \<open>actuatorCalls\<close> is not a field of the program: it records,
  in order, the argument of every call of \<open>navigator.vibrate\<close> made by \<open>vibrate\<close>.
\<close>

record VibrationController =
  isSupported :: bool
  isEnabled :: bool
  lastVibrationTime :: int
  isVibrating :: bool
  cfg_minInterval :: int
  cfg_maxDuration :: real
  cfg_intensityMultiplier :: real
  cfg_frequencyThreshold :: real
  cfg_adaptiveSync :: bool
  cfg_latencyCompensation :: real
  avgLatency :: real
  latencyHistory :: "real list"
  lastSyncTime :: "int option"
  lastFrequencyData :: "frequency_data option"
  lastVolumeData :: "volume_data option"
  actuatorCalls :: "pattern list"

text \<open>The constructor, on a platform that has \<open>navigator.vibrate\<close> or not.\<close>

definition new_VibrationController :: "bool \<Rightarrow> VibrationController" where
  "new_VibrationController supported =
     \<lparr> isSupported = supported, isEnabled = False, lastVibrationTime = 0,
       isVibrating = False, cfg_minInterval = 20, cfg_maxDuration = 800,
       cfg_intensityMultiplier = 4, cfg_frequencyThreshold = 15 / 100,
       cfg_adaptiveSync = True, cfg_latencyCompensation = 20,
       avgLatency = 0, latencyHistory = [], lastSyncTime = None,
       lastFrequencyData = None, lastVolumeData = None, actuatorCalls = [] \<rparr>"

definition enable :: "VibrationController \<Rightarrow> bool \<times> VibrationController" where
  "enable c = (if \<not> isSupported c then (False, c) else (True, c\<lparr> isEnabled := True \<rparr>))"

text \<open>The presets \<open>this.patterns.beat\<close> and \<open>this.patterns.strongBeat\<close>, never reassigned.\<close>

definition patterns_beat :: "jsnum list" where
  "patterns_beat = [Num 200, Num 50]"

definition patterns_strongBeat :: "jsnum list" where
  "patterns_strongBeat = [Num 350, Num 50]"

subsection \<open>vibrate\<close>

definition applyLatencyCompensation :: "VibrationController \<Rightarrow> pattern \<Rightarrow> pattern" where
  "applyLatencyCompensation c p =
     (if \<not> cfg_adaptiveSync c \<or> cfg_latencyCompensation c = 0 then p
      else
        (case p of
           PArr [] \<Rightarrow> PArr []
         | PArr (x # rest) \<Rightarrow>
             PArr (js_max (Num 10) (js_sub x (Num (cfg_latencyCompensation c))) # rest)
         | PNum x \<Rightarrow> PNum (js_max (Num 10) (js_sub x (Num (cfg_latencyCompensation c))))))"

text \<open>
  \<open>updateSyncStats\<close>: \<open>perfEnd\<close> is its reading of \<open>performance.now()\<close>.  The
  history is never empty when the average is taken.
\<close>

definition updateSyncStats :: "real \<Rightarrow> real \<Rightarrow> VibrationController \<Rightarrow> VibrationController" where
  "updateSyncStats vibrationStartTime perfEnd c =
     (let latency = perfEnd - vibrationStartTime;
          pushed = latencyHistory c @ [latency];
          h = (if 20 < length pushed then tl pushed else pushed);
          avg = sum_list h / real (length h);
          c1 = c\<lparr> latencyHistory := h, avgLatency := avg \<rparr>
      in if cfg_adaptiveSync c1 \<and> 10 \<le> length h
         then c1\<lparr> cfg_latencyCompensation := min 50 (max 0 avg) \<rparr>
         else c1)"

text \<open>
  What one call of \<open>vibrate\<close> reads from outside: \<open>Date.now()\<close>, the two readings
  of \<open>performance.now()\<close> and the outcome of \<open>navigator.vibrate\<close>.
\<close>

record vib_env =
  v_now :: int
  v_perfStart :: real
  v_perfEnd :: real
  v_navigator :: nav_result

text \<open>
  \<open>vibrate\<close> returns its boolean and the new state.  The timer that clears
  \<open>isVibrating\<close> later is not part of the call.
\<close>

definition vibrate ::
  "vib_env \<Rightarrow> pattern \<Rightarrow> VibrationController \<Rightarrow> bool \<times> VibrationController" where
  "vibrate e p c =
     (if \<not> isSupported c \<or> \<not> isEnabled c then (False, c)
      else if v_now e - lastVibrationTime c < cfg_minInterval c then (False, c)
      else
        let compensatedPattern = applyLatencyCompensation c p;
            c1 = c\<lparr> actuatorCalls := actuatorCalls c @ [compensatedPattern] \<rparr>
        in case v_navigator e of
             Throws \<Rightarrow> (False, c1)
           | Returns False \<Rightarrow> (False, c1)
           | Returns True \<Rightarrow>
               (True, updateSyncStats (v_perfStart e) (v_perfEnd e)
                        (c1\<lparr> lastVibrationTime := v_now e, isVibrating := True \<rparr>)))"

subsection \<open>The detectors\<close>

definition detectFrequencyChange ::
  "int \<Rightarrow> frequency_data option \<Rightarrow> VibrationController \<Rightarrow> bool \<times> VibrationController" where
  "detectFrequencyChange now frequencyDataOpt c =
     (case (frequencyDataOpt, lastFrequencyData c) of
        (Some fd, Some lastFd) \<Rightarrow>
          if now - lastVibrationTime c < 150 then (False, c)
          else
            let bassChange = \<bar>bass fd - bass lastFd\<bar>;
                trebleChange = \<bar>treble fd - treble lastFd\<bar>;
                c1 = c\<lparr> lastFrequencyData := Some fd \<rparr>
            in if 3 / 10 < bassChange \<and> 1 / 2 < bass fd then (True, c1)
               else if 4 / 10 < trebleChange \<and> 6 / 10 < treble fd then (True, c1)
               else (False, c1)
      | _ \<Rightarrow> (False, c\<lparr> lastFrequencyData := frequencyDataOpt \<rparr>))"

definition detectVolumeChange ::
  "int \<Rightarrow> volume_data option \<Rightarrow> VibrationController \<Rightarrow> bool \<times> VibrationController" where
  "detectVolumeChange now volumeDataOpt c =
     (case (volumeDataOpt, lastVolumeData c) of
        (Some vd, Some lastVd) \<Rightarrow>
          if now - lastVibrationTime c < 200 then (False, c)
          else
            let volumeChange = js_abs (js_sub (level vd) (level lastVd));
                c1 = c\<lparr> lastVolumeData := Some vd \<rparr>
            in (js_gt volumeChange (Num (3 / 10)) \<and> js_gt (level vd) (Num (7 / 10)), c1)
      | _ \<Rightarrow> (False, c\<lparr> lastVolumeData := volumeDataOpt \<rparr>))"

subsection \<open>The handlers\<close>

text \<open>
  The pattern that \<open>handleBeatVibration\<close> passes to \<open>vibrate\<close>.  \<open>strength || 0.5\<close>
  and \<open>type || 'energy'\<close> replace a falsy field.
\<close>

definition beatPattern :: "beat_data \<Rightarrow> jsnum list" where
  "beatPattern beatData =
     (let intensity = (if js_truthy (strength beatData) then strength beatData else Num (1 / 2));
          beatType = (case btype beatData of None \<Rightarrow> Energy | Some t \<Rightarrow> t);
          p = (if beatType = Kick
                 then (if js_gt intensity (Num (8 / 10)) then [Num 300, Num 50]
                       else [Num 200, Num 50])
               else if js_gt intensity (Num (8 / 10)) then patterns_strongBeat
               else if js_gt intensity (Num (1 / 2)) then patterns_beat
               else [Num 120, Num 30])
      in if bpm beatData \<noteq> 0 \<and> 0 < bpm beatData
            \<and> 60000 / real_of_int (bpm beatData) < 400
         then [js_min (p ! 0) (Num 80), p ! 1]
         else p)"

definition handleBeatVibration ::
  "vib_env \<Rightarrow> beat_data \<Rightarrow> VibrationController \<Rightarrow> VibrationController" where
  "handleBeatVibration e beatData c =
     (if \<not> detected beatData then c
      else snd (vibrate e (PArr (beatPattern beatData)) c))"

text \<open>The pattern of \<open>handleFrequencyVibration\<close>, if it calls \<open>vibrate\<close> at all.\<close>

definition frequencyPattern :: "VibrationController \<Rightarrow> frequency_data \<Rightarrow> jsnum list option" where
  "frequencyPattern c fd =
     (if cfg_frequencyThreshold c < bass fd
      then (let intensity = min (bass fd * cfg_intensityMultiplier c) 1;
                duration = \<lfloor>intensity * cfg_maxDuration c\<rfloor>
            in if 50 < duration then Some [Num (of_int duration), Num 100] else None)
      else None)"

definition handleFrequencyVibration ::
  "vib_env \<Rightarrow> frequency_data \<Rightarrow> VibrationController \<Rightarrow> VibrationController" where
  "handleFrequencyVibration e fd c =
     (case frequencyPattern c fd of
        None \<Rightarrow> c
      | Some p \<Rightarrow> snd (vibrate e (PArr p) c))"

text \<open>The pattern of \<open>handleVolumeVibration\<close>, if it calls \<open>vibrate\<close> at all.\<close>

definition volumePattern :: "VibrationController \<Rightarrow> jsnum \<Rightarrow> jsnum list option" where
  "volumePattern c vol =
     (if js_gt vol (Num (8 / 10)) \<and> \<not> isVibrating c
      then Some [js_floor (js_mul vol (Num 150)), Num 50]
      else None)"

definition handleVolumeVibration ::
  "vib_env \<Rightarrow> jsnum \<Rightarrow> VibrationController \<Rightarrow> VibrationController" where
  "handleVolumeVibration e vol c =
     (case volumePattern c vol of
        None \<Rightarrow> c
      | Some p \<Rightarrow> snd (vibrate e (PArr p) c))"

subsection \<open>syncVibrationWithAudio\<close>

text \<open>
  What one call reads from outside: \<open>Date.now()\<close> in \<open>syncVibrationWithAudio\<close>,
  in \<open>detectFrequencyChange\<close> and in \<open>detectVolumeChange\<close>, and the environment of
  the one call of \<open>vibrate\<close> that a handler may make.
\<close>

record sync_env =
  s_now :: int
  s_freqNow :: int
  s_volNow :: int
  s_vib :: vib_env

text \<open>
  Steps 2 and 3, reached when no beat is detected.  A detector returns \<open>true\<close> only
  for a present object, so the two \<open>None\<close> cases after a \<open>True\<close> are never taken.
\<close>

definition syncWithoutBeat ::
  "sync_env \<Rightarrow> analysis_data \<Rightarrow> VibrationController \<Rightarrow> VibrationController" where
  "syncWithoutBeat e audioData c =
     (case detectFrequencyChange (s_freqNow e) (frequency audioData) c of
        (True, c1) \<Rightarrow>
          (case frequency audioData of
             None \<Rightarrow> c1
           | Some fd \<Rightarrow>
               (handleFrequencyVibration (s_vib e) fd c1)\<lparr> lastSyncTime := Some (s_now e) \<rparr>)
      | (False, c1) \<Rightarrow>
          (case detectVolumeChange (s_volNow e) (volume audioData) c1 of
             (True, c2) \<Rightarrow>
               (case volume audioData of
                  None \<Rightarrow> c2
                | Some vd \<Rightarrow>
                    (handleVolumeVibration (s_vib e) (level vd) c2)
                      \<lparr> lastSyncTime := Some (s_now e) \<rparr>)
           | (False, c2) \<Rightarrow> c2))"

definition syncVibrationWithAudio ::
  "sync_env \<Rightarrow> analysis_data \<Rightarrow> VibrationController \<Rightarrow> VibrationController" where
  "syncVibrationWithAudio e audioData c =
     (case beat audioData of
        None \<Rightarrow> syncWithoutBeat e audioData c
      | Some b \<Rightarrow>
          if detected b
          then (handleBeatVibration (s_vib e) b c)\<lparr> lastSyncTime := Some (s_now e) \<rparr>
          else syncWithoutBeat e audioData c)"

definition processAudioData ::
  "sync_env \<Rightarrow> analysis_data option \<Rightarrow> VibrationController \<Rightarrow> VibrationController" where
  "processAudioData e audioDataOpt c =
     (case audioDataOpt of
        None \<Rightarrow> c
      | Some audioData \<Rightarrow> if \<not> isEnabled c then c else syncVibrationWithAudio e audioData c)"

section \<open>Runs\<close>

text \<open>
  A session of \<open>detectBeat\<close>: each call with its clock readings, frame and sample
  rate.  The run lists, per call, the time the call read and whether it reported a beat.
\<close>

fun detectRun :: "AudioAnalyzer \<Rightarrow> (int \<times> int \<times> byte list \<times> nat) list \<Rightarrow> (int \<times> bool) list" where
  "detectRun a [] = []"
| "detectRun a ((t, tb, data, sr) # ticks) =
     (case detectBeat t tb data sr a of (b, a') \<Rightarrow> (t, detected b) # detectRun a' ticks)"

text \<open>
  A session of \<open>vibrate\<close>: the run lists, per call, the time the call read, its
  return value and the number of calls of \<open>navigator.vibrate\<close> it made.
\<close>

fun vibrateRun ::
  "VibrationController \<Rightarrow> (vib_env \<times> pattern) list \<Rightarrow> (int \<times> bool \<times> nat) list" where
  "vibrateRun c [] = []"
| "vibrateRun c ((e, p) # calls) =
     (case vibrate e p c of
        (r, c') \<Rightarrow>
          (v_now e, r, length (actuatorCalls c') - length (actuatorCalls c)) # vibrateRun c' calls)"

text \<open>
  A session of \<open>estimateBPM\<close>, one call per beat time: the values returned, and the
  analyzer afterwards.
\<close>

fun bpmRun :: "AudioAnalyzer \<Rightarrow> int list \<Rightarrow> int list" where
  "bpmRun a [] = []"
| "bpmRun a (t # ts) = (case estimateBPM t a of (b, a') \<Rightarrow> b # bpmRun a' ts)"


section \<open>The specification's formulas\<close>





definition mean :: "int list \<Rightarrow> real" where
  "mean xs = real_of_int (sum_list xs) / real (length xs)"


text \<open>
  The element at index \<open>length div 2\<close> of the sorted list: the median of an odd
  number of elements, the larger of the two middle elements of an even number.
\<close>

definition upperMiddle :: "int list \<Rightarrow> int" where
  "upperMiddle xs = sort xs ! (length xs div 2)"

text \<open>The exact quotient \<open>60000 / (0.7 * m + 0.3 * mean)\<close> for a middle value \<open>m\<close>.\<close>

definition bpmQuotient :: "int \<Rightarrow> int list \<Rightarrow> real" where
  "bpmQuotient m xs = 60000 / (7 / 10 * real_of_int m + 3 / 10 * mean xs)"

text \<open>
  The same quotient in double precision: the literals \<open>0.7\<close> and \<open>0.3\<close>, the mean,
  the two products, their sum and the quotient are each rounded to the nearest double.
\<close>

definition doubleInterval :: "int \<Rightarrow> int list \<Rightarrow> real" where
  "doubleInterval m xs =
     fl64 (fl64 (real_of_int m * fl64 (7 / 10)) + fl64 (fl64 (mean xs) * fl64 (3 / 10)))"

definition doubleQuotient :: "int \<Rightarrow> int list \<Rightarrow> real" where
  "doubleQuotient m xs = fl64 (60000 / doubleInterval m xs)"


text \<open>The mean magnitude of a list of bins, 0 for no bin.\<close>

definition meanOver :: "byte list \<Rightarrow> nat list \<Rightarrow> real" where
  "meanOver data bins =
     (if bins = [] then 0 else sum_list (map (magnitude data) bins) / real (length bins))"

text \<open>The frequency \<open>binIndex * sampleRate / (2 * binCount)\<close> of a bin.\<close>

definition binFrequency :: "byte list \<Rightarrow> nat \<Rightarrow> nat \<Rightarrow> real" where
  "binFrequency data sr i = real i * real sr / (2 * real (length data))"

text \<open>
  A band energy as the specification words it: the mean magnitude of all bins of the
  frame whose frequency lies in \<open>[lo, hi]\<close>.
\<close>

definition bandEnergy_spec :: "byte list \<Rightarrow> nat \<Rightarrow> real \<Rightarrow> real \<Rightarrow> real" where
  "bandEnergy_spec data sr lo hi =
     meanOver data
       (filter (\<lambda>i. lo \<le> binFrequency data sr i \<and> binFrequency data sr i \<le> hi)
          [0..<length data])"

text \<open>
  The spectral flux as the specification words it: the positive changes against the
  previous frame, summed over the bins from 20 Hz to 4000 Hz and divided by their number.
\<close>

definition spectralFlux_spec :: "byte list \<Rightarrow> byte list \<Rightarrow> nat \<Rightarrow> real" where
  "spectralFlux_spec current previous sr =
     sum_list (map (\<lambda>i. max 0 (magnitude current i - magnitude previous i))
                 (energyBins current sr))
       / real (length (energyBins current sr))"

section \<open>Observations and sample inputs\<close>

text \<open>The calls of \<open>navigator.vibrate\<close> made between two states of a controller.\<close>

definition emitted :: "VibrationController \<Rightarrow> VibrationController \<Rightarrow> pattern list" where
  "emitted c c' = drop (length (actuatorCalls c)) (actuatorCalls c')"

text \<open>
  Whether \<open>vibrate\<close> passes its two guards (support and switch, minimum interval) and
  so calls \<open>navigator.vibrate\<close>, and the calls that one \<open>vibrate\<close> of the pattern \<open>p\<close>
  makes: the compensated pattern, or none.
\<close>

definition accepts :: "vib_env \<Rightarrow> VibrationController \<Rightarrow> bool" where
  "accepts e c =
     (isSupported c \<and> isEnabled c \<and> cfg_minInterval c \<le> v_now e - lastVibrationTime c)"

definition sent :: "vib_env \<Rightarrow> VibrationController \<Rightarrow> jsnum list \<Rightarrow> pattern list" where
  "sent e c p = (if accepts e c then [applyLatencyCompensation c (PArr p)] else [])"

text \<open>
  The three tests of \<open>syncVibrationWithAudio\<close> in the order of the code: the beat
  flag, the frequency detector on the controller as it is, and the volume detector on
  the controller that the frequency detector leaves.
\<close>

definition beatDetected :: "analysis_data \<Rightarrow> bool" where
  "beatDetected ad = (case beat ad of None \<Rightarrow> False | Some b \<Rightarrow> detected b)"

definition frequencyFires :: "sync_env \<Rightarrow> analysis_data \<Rightarrow> VibrationController \<Rightarrow> bool" where
  "frequencyFires e ad c = fst (detectFrequencyChange (s_freqNow e) (frequency ad) c)"

definition afterFrequencyCheck ::
  "sync_env \<Rightarrow> analysis_data \<Rightarrow> VibrationController \<Rightarrow> VibrationController" where
  "afterFrequencyCheck e ad c = snd (detectFrequencyChange (s_freqNow e) (frequency ad) c)"

definition volumeFires :: "sync_env \<Rightarrow> analysis_data \<Rightarrow> VibrationController \<Rightarrow> bool" where
  "volumeFires e ad c =
     fst (detectVolumeChange (s_volNow e) (volume ad) (afterFrequencyCheck e ad c))"

definition afterVolumeCheck ::
  "sync_env \<Rightarrow> analysis_data \<Rightarrow> VibrationController \<Rightarrow> VibrationController" where
  "afterVolumeCheck e ad c =
     snd (detectVolumeChange (s_volNow e) (volume ad) (afterFrequencyCheck e ad c))"

text \<open>
  An analyzer after \<open>init\<close> with the defaults (44100 Hz, \<open>fftSize\<close> 2048, so 1024
  bins), and a frame whose only non-zero bin is bin 3 (about 65 Hz, in the kick band).
\<close>

definition readyAnalyzer :: AudioAnalyzer where
  "readyAnalyzer = init 44100 1024 new_AudioAnalyzer"

definition kickFrame :: "byte list" where
  "kickFrame = (replicate 1024 0)[3 := 255]"

definition twoTicks :: "(int \<times> int \<times> byte list \<times> nat) list" where
  "twoTicks = [(1000, 1000, kickFrame, 44100), (1100, 1100, kickFrame, 44100)]"

text \<open>Analysis results of a quiet tick and of a loud, bass-heavy tick.\<close>

definition quietFrequency :: frequency_data where
  "quietFrequency =
     \<lparr> bass = 2 / 10, mid = 1 / 10, treble = 1 / 10, peak = 100, peakValue = 2 / 10,
       totalEnergy = Num (1 / 100), spectralCentroid = 500, brightness = 1 / 2 \<rparr>"

definition bassyFrequency :: frequency_data where
  "bassyFrequency =
     \<lparr> bass = 9 / 10, mid = 1 / 10, treble = 1 / 10, peak = 100, peakValue = 1,
       totalEnergy = Num (1 / 10), spectralCentroid = 200, brightness = 1 / 9 \<rparr>"

definition quietVolume :: volume_data where
  "quietVolume =
     \<lparr> vol_average = Num (1 / 100), vol_max = 1 / 10, vol_rms = Num (1 / 10),
       level = Num (2 / 10) \<rparr>"

definition loudVolume :: volume_data where
  "loudVolume =
     \<lparr> vol_average = Num (1 / 4), vol_max = 1, vol_rms = Num (1 / 2), level = Num 1 \<rparr>"

definition kickBeatEvent :: beat_data where
  "kickBeatEvent =
     \<lparr> detected = True, strength = Num 1, bpm = 0, confidence = Num 0,
       energy = Some (Num (1 / 185)), kickEnergy = Some (Num (1 / 3)), btype = Some Kick \<rparr>"

definition beatTick :: analysis_data where
  "beatTick = \<lparr> volume = Some loudVolume, frequency = Some bassyFrequency,
                beat = Some kickBeatEvent, timestamp = 1000 \<rparr>"

definition transientTick :: analysis_data where
  "transientTick = \<lparr> volume = Some loudVolume, frequency = Some bassyFrequency,
                     beat = Some noBeat, timestamp = 1000 \<rparr>"

text \<open>
  A tick with a volume swell only (the spectrum is that of the tick before), and a
  tick on which nothing changes.
\<close>

definition volumeTick :: analysis_data where
  "volumeTick = \<lparr> volume = Some loudVolume, frequency = Some quietFrequency,
                  beat = Some noBeat, timestamp = 1000 \<rparr>"

definition calmTick :: analysis_data where
  "calmTick = \<lparr> volume = Some quietVolume, frequency = Some quietFrequency,
                beat = Some noBeat, timestamp = 1000 \<rparr>"

text \<open>
  Controllers on a platform with \<open>navigator.vibrate\<close>: enabled; enabled after a quiet
  tick; and the latter with a vibration at time 1000.
\<close>

definition enabledController :: VibrationController where
  "enabledController = snd (enable (new_VibrationController True))"

definition swellController :: VibrationController where
  "swellController =
     enabledController\<lparr> lastFrequencyData := Some quietFrequency,
                        lastVolumeData := Some quietVolume \<rparr>"

definition busyController :: VibrationController where
  "busyController = swellController\<lparr> lastVibrationTime := 1000 \<rparr>"

text \<open>An environment in which \<open>navigator.vibrate\<close> succeeds at time \<open>t\<close>.\<close>

definition okEnv :: "int \<Rightarrow> vib_env" where
  "okEnv t = \<lparr> v_now = t, v_perfStart = 5, v_perfEnd = 6, v_navigator = Returns True \<rparr>"

definition swellEnv :: sync_env where
  "swellEnv = \<lparr> s_now = 1000, s_freqNow = 1000, s_volNow = 1000, s_vib = okEnv 1000 \<rparr>"

definition twoCalls :: "(vib_env \<times> pattern) list" where
  "twoCalls = [(okEnv 1000, PArr [Num 200, Num 50]), (okEnv 1010, PArr [Num 200, Num 50])]"

text \<open>More frames: silence, every bin at full scale, and a single tone in bin 500
  (about 10.8 kHz); a time-domain frame at rest; and two ticks that read them.\<close>

definition silentFrame :: "byte list" where
  "silentFrame = replicate 1024 0"

definition loudFrame :: "byte list" where
  "loudFrame = replicate 1024 255"

definition toneFrame :: "byte list" where
  "toneFrame = (replicate 1024 0)[500 := 255]"

definition restingWave :: "byte list" where
  "restingWave = replicate 1024 128"

definition silentTick :: tick where
  "silentTick = \<lparr> freqFrame = silentFrame, timeFrame = restingWave,
                  t_detect = 1000, t_bpm = 1000, t_result = 1000 \<rparr>"

definition loudTick :: tick where
  "loudTick = \<lparr> freqFrame = loudFrame, timeFrame = restingWave,
                t_detect = 1016, t_bpm = 1016, t_result = 1016 \<rparr>"




text \<open>
  The bins that the chain of tests in \<open>analyzeFrequency\<close> counts for each band: a bin
  at exactly 250 Hz or 4000 Hz is taken by the lower band.
\<close>

definition inBass :: "byte list \<Rightarrow> nat \<Rightarrow> nat \<Rightarrow> bool" where
  "inBass data sr i = (20 \<le> binFrequency data sr i \<and> binFrequency data sr i \<le> 250)"

definition inMid :: "byte list \<Rightarrow> nat \<Rightarrow> nat \<Rightarrow> bool" where
  "inMid data sr i = (250 < binFrequency data sr i \<and> binFrequency data sr i \<le> 4000)"

definition inTreble :: "byte list \<Rightarrow> nat \<Rightarrow> nat \<Rightarrow> bool" where
  "inTreble data sr i = (4000 < binFrequency data sr i \<and> binFrequency data sr i \<le> 20000)"

section \<open>Shared facts\<close>

lemmas analyzer_defs = readyAnalyzer_def init_def new_AudioAnalyzer_def

lemmas controller_defs = swellController_def enabledController_def enable_def
  new_VibrationController_def busyController_def okEnv_def swellEnv_def

lemmas data_defs = quietFrequency_def bassyFrequency_def quietVolume_def loudVolume_def
  kickBeatEvent_def noBeat_def beatTick_def transientTick_def volumeTick_def calmTick_def

lemma length_kickFrame: "length kickFrame = 1024"
  by (simp add: kickFrame_def)

lemma magnitude_kickFrame: "i < 1024 \<Longrightarrow> magnitude kickFrame i = (if i = 3 then 1 else 0)"
  by (simp add: magnitude_def kickFrame_def nth_list_update)

lemma binOf_default:
  "binOf 20 1024 44100 = 0" "binOf 60 1024 44100 = 2" "binOf 120 1024 44100 = 5"
  "binOf 250 1024 44100 = 11" "binOf 4000 1024 44100 = 185"
  by (simp_all add: binOf_def)

lemma energy_kickFrame_loop: "fold (energy_step kickFrame 44100) [0..<185] (0, 0, 0) = (1, 1, 1)"
  by (simp add: energy_step_def magnitude_kickFrame length_kickFrame binOf_default upt_rec)

lemma calculateEnergy_kickFrame:
  "calculateEnergy kickFrame 44100 =
     \<lparr> en_total = Num (1 / 185), en_bass = Num (1 / 11), en_kick = Num (1 / 3) \<rparr>"
  by (simp add: calculateEnergy_def energyBins_def length_kickFrame binOf_default
        energy_kickFrame_loop)

lemma detectBeat_kickFrame:
  "fst (detectBeat 1000 1000 kickFrame 44100 readyAnalyzer) =
     \<lparr> detected = True, strength = Num 1, bpm = 0, confidence = Num 0,
       energy = Some (Num (1 / 185)), kickEnergy = Some (Num (1 / 3)), btype = Some Kick \<rparr>"
  by (simp add: detectBeat_def calculateEnergy_kickFrame analyzer_defs pushEnergy_def Let_def
        estimateBPM_def recordInterval_def js_sub_def)

section \<open>The minimum interval between beats\<close>

lemma detectBeat_cooldown:
  "t - bd_lastBeatTime a < bd_minInterval a \<Longrightarrow> detectBeat t tb data sr a = (noBeat, a)"
  by (simp add: detectBeat_def)

lemma detectBeat_minInterval:
  "bd_minInterval (snd (detectBeat t tb data sr a)) = bd_minInterval a"
  by (simp add: detectBeat_def Let_def estimateBPM_def split: prod.splits)

lemma detectBeat_lastBeatTime:
  "bd_lastBeatTime (snd (detectBeat t tb data sr a)) =
     (if detected (fst (detectBeat t tb data sr a)) then t else bd_lastBeatTime a)"
  by (simp add: detectBeat_def Let_def noBeat_def estimateBPM_def split: prod.splits)

lemma detectBeat_detected_late:
  "detected (fst (detectBeat t tb data sr a)) \<Longrightarrow> bd_lastBeatTime a + bd_minInterval a \<le> t"
  by (cases "t - bd_lastBeatTime a < bd_minInterval a")
     (simp_all add: detectBeat_cooldown noBeat_def)

lemma detectBeat_lastBeatTime_mono:
  "0 \<le> bd_minInterval a \<Longrightarrow>
   bd_lastBeatTime a \<le> bd_lastBeatTime (snd (detectBeat t tb data sr a))"
  using detectBeat_detected_late [of t tb data sr a]
  by (auto simp: detectBeat_lastBeatTime)

lemma detectRun_Cons:
  "detectRun a ((t, tb, data, sr) # ticks) =
     (t, detected (fst (detectBeat t tb data sr a)))
     # detectRun (snd (detectBeat t tb data sr a)) ticks"
  by (simp split: prod.splits)

text \<open>
  While the last beat time is at least \<open>L\<close>, no call that reads a time before
  \<open>L + minInterval\<close> reports a beat.
\<close>

lemma detectRun_cooldown:
  "0 \<le> bd_minInterval a \<Longrightarrow> L \<le> bd_lastBeatTime a \<Longrightarrow> j < length ticks \<Longrightarrow>
   detectRun a ticks ! j = (tj, dj) \<Longrightarrow> tj < L + bd_minInterval a \<Longrightarrow> \<not> dj"
proof (induction ticks arbitrary: a j)
  case Nil
  then show ?case by simp
next
  case (Cons x ticks)
  obtain t tb data sr where x: "x = (t, tb, data, sr)" by (cases x) auto
  define a' where "a' = snd (detectBeat t tb data sr a)"
  note run = detectRun_Cons [of a t tb data sr ticks, folded a'_def]
  show ?case
  proof (cases j)
    case 0
    with Cons.prems(4) run x have tj: "tj = t"
      and dj: "dj = detected (fst (detectBeat t tb data sr a))" by auto
    from Cons.prems(2,5) tj have "t - bd_lastBeatTime a < bd_minInterval a" by simp
    then show ?thesis by (simp add: dj detectBeat_cooldown noBeat_def)
  next
    case (Suc k)
    have m: "bd_minInterval a' = bd_minInterval a"
      by (simp add: a'_def detectBeat_minInterval)
    have "L \<le> bd_lastBeatTime a'"
      using Cons.prems(1,2) detectBeat_lastBeatTime_mono [of a t tb data sr]
      by (simp add: a'_def)
    moreover have "detectRun a' ticks ! k = (tj, dj)"
      using Cons.prems(4) run Suc x by simp
    moreover have "k < length ticks" using Cons.prems(3) Suc by simp
    ultimately show ?thesis using Cons.IH [of a' k] Cons.prems(1,5) m by simp
  qed
qed

text \<open>
  C1.  In a session of calls of \<open>detectBeat\<close> (any frames, any clock readings) with a
  minimum beat interval that is not negative, a call that reports a beat at time
  \<open>ti\<close> is followed by no report of a beat at a time before \<open>ti + minInterval\<close>:
  two reported beats are never closer than the minimum interval.
\<close>

theorem detectBeat_min_interval:
  "0 \<le> bd_minInterval a \<Longrightarrow> i < j \<Longrightarrow> j < length ticks \<Longrightarrow>
   detectRun a ticks ! i = (ti, True) \<Longrightarrow> detectRun a ticks ! j = (tj, dj) \<Longrightarrow>
   tj < ti + bd_minInterval a \<Longrightarrow> dj = False"
proof (induction ticks arbitrary: a i j)
  case Nil
  then show ?case by simp
next
  case (Cons x ticks)
  obtain t tb data sr where x: "x = (t, tb, data, sr)" by (cases x) auto
  define a' where "a' = snd (detectBeat t tb data sr a)"
  note run = detectRun_Cons [of a t tb data sr ticks, folded a'_def]
  have m: "bd_minInterval a' = bd_minInterval a"
    by (simp add: a'_def detectBeat_minInterval)
  obtain k where j: "j = Suc k" using Cons.prems(2) by (cases j) auto
  have k: "k < length ticks" and runk: "detectRun a' ticks ! k = (tj, dj)"
    using Cons.prems(3,5) run j x by simp_all
  show ?case
  proof (cases i)
    case 0
    with Cons.prems(4) run x have "ti = t" and "detected (fst (detectBeat t tb data sr a))"
      by auto
    then have "bd_lastBeatTime a' = ti" by (simp add: a'_def detectBeat_lastBeatTime)
    then show ?thesis
      using detectRun_cooldown [of a' ti k ticks tj dj] Cons.prems(1,6) m k runk by simp
  next
    case (Suc i')
    then have "i' < k" and "detectRun a' ticks ! i' = (ti, True)"
      using Cons.prems(2,4) run j x by simp_all
    then show ?thesis using Cons.IH [of a' i' k] Cons.prems(1,6) m k runk by simp
  qed
qed

text \<open>
  The default analyzer hears a kick at time 1000 and again at time 1100: the first
  call reports a beat, the second, 100 ms later, does not.
\<close>

theorem detectBeat_min_interval_witness:
  "0 \<le> bd_minInterval readyAnalyzer \<and>
   detectRun readyAnalyzer twoTicks ! 0 = (1000, True) \<and>
   fst (detectRun readyAnalyzer twoTicks ! 1) = 1100 \<and>
   1100 < 1000 + bd_minInterval readyAnalyzer \<and>
   snd (detectRun readyAnalyzer twoTicks ! 1) = False"
proof -
  have h0: "0 \<le> bd_minInterval readyAnalyzer"
    by (simp add: analyzer_defs)
  have h1: "detectRun readyAnalyzer twoTicks ! 0 = (1000, True)"
    by (simp add: twoTicks_def detectRun_Cons detectBeat_kickFrame del: detectRun.simps)
  have h2: "detectRun readyAnalyzer twoTicks ! 1
              = (1100, snd (detectRun readyAnalyzer twoTicks ! 1))"
    by (simp add: twoTicks_def detectRun_Cons del: detectRun.simps)
  have h3: "(1100::int) < 1000 + bd_minInterval readyAnalyzer"
    by (simp add: analyzer_defs)
  have "snd (detectRun readyAnalyzer twoTicks ! 1) = False"
    by (rule detectBeat_min_interval [OF h0 _ _ h1 h2 h3]) (simp_all add: twoTicks_def)
  with h0 h1 h2 h3 show ?thesis by simp
qed

section \<open>The minimum interval between actuations\<close>

lemma updateSyncStats_fields:
  "lastVibrationTime (updateSyncStats x y c) = lastVibrationTime c"
  "cfg_minInterval (updateSyncStats x y c) = cfg_minInterval c"
  "actuatorCalls (updateSyncStats x y c) = actuatorCalls c"
  "lastFrequencyData (updateSyncStats x y c) = lastFrequencyData c"
  "lastVolumeData (updateSyncStats x y c) = lastVolumeData c"
  by (simp_all add: updateSyncStats_def Let_def)

lemma vibrate_reject:
  "v_now e - lastVibrationTime c < cfg_minInterval c \<Longrightarrow> vibrate e p c = (False, c)"
  by (simp add: vibrate_def)

lemma vibrate_minInterval: "cfg_minInterval (snd (vibrate e p c)) = cfg_minInterval c"
  by (simp add: vibrate_def Let_def updateSyncStats_fields split: nav_result.splits bool.splits)

lemma vibrate_lastVibrationTime:
  "lastVibrationTime (snd (vibrate e p c)) =
     (if fst (vibrate e p c) then v_now e else lastVibrationTime c)"
  by (simp add: vibrate_def Let_def updateSyncStats_fields split: nav_result.splits bool.splits)

lemma vibrate_accept_late:
  "fst (vibrate e p c) \<Longrightarrow> lastVibrationTime c + cfg_minInterval c \<le> v_now e"
  by (cases "v_now e - lastVibrationTime c < cfg_minInterval c") (simp_all add: vibrate_reject)

lemma vibrate_lastVibrationTime_mono:
  "0 \<le> cfg_minInterval c \<Longrightarrow> lastVibrationTime c \<le> lastVibrationTime (snd (vibrate e p c))"
  using vibrate_accept_late [of e p c] by (auto simp: vibrate_lastVibrationTime)

lemma vibrateRun_Cons:
  "vibrateRun c ((e, p) # calls) =
     (v_now e, fst (vibrate e p c),
      length (actuatorCalls (snd (vibrate e p c))) - length (actuatorCalls c))
     # vibrateRun (snd (vibrate e p c)) calls"
  by (simp split: prod.splits)

text \<open>
  While the last actuation time is at least \<open>L\<close>, every call that reads a time before
  \<open>L + minInterval\<close> is rejected without a call of the actuator.
\<close>

lemma vibrateRun_reject:
  "0 \<le> cfg_minInterval c \<Longrightarrow> L \<le> lastVibrationTime c \<Longrightarrow> j < length calls \<Longrightarrow>
   vibrateRun c calls ! j = (tj, rj, nj) \<Longrightarrow> tj < L + cfg_minInterval c \<Longrightarrow>
   rj = False \<and> nj = 0"
proof (induction calls arbitrary: c j)
  case Nil
  then show ?case by simp
next
  case (Cons x calls)
  obtain e p where x: "x = (e, p)" by (cases x) auto
  define c' where "c' = snd (vibrate e p c)"
  note run = vibrateRun_Cons [of c e p calls, folded c'_def]
  show ?case
  proof (cases j)
    case 0
    with Cons.prems(4) run x have tj: "tj = v_now e" and rj: "rj = fst (vibrate e p c)"
      and nj: "nj = length (actuatorCalls c') - length (actuatorCalls c)" by auto
    from Cons.prems(2,5) tj have "v_now e - lastVibrationTime c < cfg_minInterval c" by simp
    then have "vibrate e p c = (False, c)" by (rule vibrate_reject)
    then show ?thesis by (simp add: rj nj c'_def)
  next
    case (Suc k)
    have m: "cfg_minInterval c' = cfg_minInterval c" by (simp add: c'_def vibrate_minInterval)
    have "L \<le> lastVibrationTime c'"
      using Cons.prems(1,2) vibrate_lastVibrationTime_mono [of c e p] by (simp add: c'_def)
    moreover have "vibrateRun c' calls ! k = (tj, rj, nj)"
      using Cons.prems(4) run Suc x by simp
    moreover have "k < length calls" using Cons.prems(3) Suc by simp
    ultimately show ?thesis using Cons.IH [of c' k] Cons.prems(1,5) m by simp
  qed
qed

text \<open>
  C2.  In a session of calls of \<open>vibrate\<close> (any patterns, any clock readings, any
  outcomes of the actuator) with a minimum actuation interval that is not negative, a
  call that actuates successfully at time \<open>ti\<close> is followed by no actuation before
  \<open>ti + minInterval\<close>: every later call that reads such a time returns \<open>false\<close> and
  does not call the actuator.
\<close>

theorem vibrate_rate_limit:
  "0 \<le> cfg_minInterval c \<Longrightarrow> i < j \<Longrightarrow> j < length calls \<Longrightarrow>
   vibrateRun c calls ! i = (ti, True, ni) \<Longrightarrow> vibrateRun c calls ! j = (tj, rj, nj) \<Longrightarrow>
   tj < ti + cfg_minInterval c \<Longrightarrow> rj = False \<and> nj = 0"
proof (induction calls arbitrary: c i j)
  case Nil
  then show ?case by simp
next
  case (Cons x calls)
  obtain e p where x: "x = (e, p)" by (cases x) auto
  define c' where "c' = snd (vibrate e p c)"
  note run = vibrateRun_Cons [of c e p calls, folded c'_def]
  have m: "cfg_minInterval c' = cfg_minInterval c" by (simp add: c'_def vibrate_minInterval)
  obtain k where j: "j = Suc k" using Cons.prems(2) by (cases j) auto
  have k: "k < length calls" and runk: "vibrateRun c' calls ! k = (tj, rj, nj)"
    using Cons.prems(3,5) run j x by simp_all
  show ?case
  proof (cases i)
    case 0
    with Cons.prems(4) run x have "ti = v_now e" and "fst (vibrate e p c)" by auto
    then have "lastVibrationTime c' = ti" by (simp add: c'_def vibrate_lastVibrationTime)
    then show ?thesis
      using vibrateRun_reject [of c' ti k calls tj rj nj] Cons.prems(1,6) m k runk by simp
  next
    case (Suc i')
    then have "i' < k" and "vibrateRun c' calls ! i' = (ti, True, ni)"
      using Cons.prems(2,4) run j x by simp_all
    then show ?thesis using Cons.IH [of c' i' k] Cons.prems(1,6) m k runk by simp
  qed
qed

text \<open>
  An enabled controller with the default 20 ms is asked to vibrate at time 1000 and at
  time 1010: the first call actuates, the second is rejected without an actuator call.
\<close>

theorem vibrate_rate_limit_witness:
  "0 \<le> cfg_minInterval enabledController \<and>
   vibrateRun enabledController twoCalls ! 0 = (1000, True, 1) \<and>
   fst (vibrateRun enabledController twoCalls ! 1) = 1010 \<and>
   1010 < 1000 + cfg_minInterval enabledController \<and>
   snd (vibrateRun enabledController twoCalls ! 1) = (False, 0)"
proof -
  have h0: "0 \<le> cfg_minInterval enabledController" by (simp add: controller_defs)
  have h1: "vibrateRun enabledController twoCalls ! 0 = (1000, True, 1)"
    by (simp add: twoCalls_def vibrate_def updateSyncStats_def Let_def controller_defs)
  have h2: "vibrateRun enabledController twoCalls ! 1 =
     (1010, fst (snd (vibrateRun enabledController twoCalls ! 1)),
      snd (snd (vibrateRun enabledController twoCalls ! 1)))"
    by (simp add: twoCalls_def vibrateRun_Cons okEnv_def del: vibrateRun.simps)
  have h3: "(1010::int) < 1000 + cfg_minInterval enabledController"
    by (simp add: controller_defs)
  have "fst (snd (vibrateRun enabledController twoCalls ! 1)) = False \<and>
        snd (snd (vibrateRun enabledController twoCalls ! 1)) = 0"
    by (rule vibrate_rate_limit [OF h0 _ _ h1 h2 h3]) (simp_all add: twoCalls_def)
  then have "snd (vibrateRun enabledController twoCalls ! 1) = (False, 0)"
    by (simp add: prod_eq_iff)
  with h0 h1 h2 h3 show ?thesis by simp
qed
section \<open>The priority of the mapping\<close>

lemma vibrate_detector_fields:
  "lastFrequencyData (snd (vibrate e p c)) = lastFrequencyData c"
  "lastVolumeData (snd (vibrate e p c)) = lastVolumeData c"
  by (simp_all add: vibrate_def Let_def updateSyncStats_fields
        split: nav_result.splits bool.splits)

text \<open>One \<open>vibrate\<close> calls \<open>navigator.vibrate\<close> once or not at all.\<close>

lemma vibrate_sent:
  "emitted c (snd (vibrate e (PArr p) c)) = sent e c p"
  "actuatorCalls (snd (vibrate e (PArr p) c)) = actuatorCalls c @ sent e c p"
  by (auto simp: vibrate_def Let_def updateSyncStats_fields emitted_def sent_def accepts_def
        split: nav_result.splits bool.splits)

lemma emitted_lastSyncTime [simp]: "emitted c (c'\<lparr> lastSyncTime := x \<rparr>) = emitted c c'"
  by (simp add: emitted_def)

lemma emitted_self [simp]: "emitted c c = []"
  by (simp add: emitted_def)

lemma emitted_same_calls: "actuatorCalls c1 = actuatorCalls c \<Longrightarrow> emitted c c' = emitted c1 c'"
  by (simp add: emitted_def)

lemma emitted_stored [simp]:
  "emitted c (c\<lparr> lastFrequencyData := x \<rparr>) = []"
  "emitted c (c\<lparr> lastFrequencyData := x, lastVolumeData := y \<rparr>) = []"
  by (simp_all add: emitted_def)

lemma length_sent [simp]: "length (sent e c p) \<le> Suc 0"
  by (simp add: sent_def)

text \<open>A detector changes nothing but the value it stores.\<close>

lemma detectFrequencyChange_state:
  "\<exists>x. snd (detectFrequencyChange now fdOpt c) = c\<lparr> lastFrequencyData := x \<rparr>"
proof
  show "snd (detectFrequencyChange now fdOpt c) =
      c\<lparr> lastFrequencyData := lastFrequencyData (snd (detectFrequencyChange now fdOpt c)) \<rparr>"
    by (simp add: detectFrequencyChange_def Let_def split: option.splits)
qed

lemma detectVolumeChange_state:
  "\<exists>x. snd (detectVolumeChange now vdOpt c) = c\<lparr> lastVolumeData := x \<rparr>"
proof
  show "snd (detectVolumeChange now vdOpt c) =
      c\<lparr> lastVolumeData := lastVolumeData (snd (detectVolumeChange now vdOpt c)) \<rparr>"
    by (simp add: detectVolumeChange_def Let_def split: option.splits)
qed

text \<open>A detector that fires was given a value, and stores it.\<close>

lemma detectFrequencyChange_fires:
  "fst (detectFrequencyChange now fdOpt c) \<Longrightarrow>
   fdOpt \<noteq> None \<and> lastFrequencyData (snd (detectFrequencyChange now fdOpt c)) = fdOpt"
  by (auto simp: detectFrequencyChange_def Let_def split: option.splits if_splits)

lemma detectVolumeChange_fires:
  "fst (detectVolumeChange now vdOpt c) \<Longrightarrow>
   vdOpt \<noteq> None \<and> lastVolumeData (snd (detectVolumeChange now vdOpt c)) = vdOpt"
  by (auto simp: detectVolumeChange_def Let_def split: option.splits if_splits)

lemma applyLatencyCompensation_stored [simp]:
  "applyLatencyCompensation (c\<lparr> lastFrequencyData := x \<rparr>) p = applyLatencyCompensation c p"
  "applyLatencyCompensation (c\<lparr> lastVolumeData := y \<rparr>) p = applyLatencyCompensation c p"
  by (simp_all add: applyLatencyCompensation_def split: pattern.splits list.splits)

lemma sent_stored [simp]:
  "sent e (c\<lparr> lastFrequencyData := x \<rparr>) p = sent e c p"
  "sent e (c\<lparr> lastVolumeData := y \<rparr>) p = sent e c p"
  by (simp_all add: sent_def accepts_def)

lemma patterns_stored [simp]:
  "frequencyPattern (c\<lparr> lastFrequencyData := x \<rparr>) fd = frequencyPattern c fd"
  "volumePattern (c\<lparr> lastFrequencyData := x \<rparr>) v = volumePattern c v"
  "volumePattern (c\<lparr> lastVolumeData := y \<rparr>) v = volumePattern c v"
  by (simp_all add: frequencyPattern_def volumePattern_def)

text \<open>The four paths of \<open>syncVibrationWithAudio\<close>, each as one equation.\<close>

lemma sync_beat:
  "beat ad = Some b \<Longrightarrow> detected b \<Longrightarrow>
   syncVibrationWithAudio e ad c =
     (snd (vibrate (s_vib e) (PArr (beatPattern b)) c))\<lparr> lastSyncTime := Some (s_now e) \<rparr>"
  by (simp add: syncVibrationWithAudio_def handleBeatVibration_def)

lemma sync_no_beat:
  "\<not> beatDetected ad \<Longrightarrow> syncVibrationWithAudio e ad c = syncWithoutBeat e ad c"
  by (simp add: syncVibrationWithAudio_def beatDetected_def split: option.splits)

lemma sync_frequency:
  assumes "\<not> beatDetected ad" "frequency ad = Some fd" "frequencyFires e ad c"
  shows "syncVibrationWithAudio e ad c =
     (case frequencyPattern c fd of
        None \<Rightarrow> afterFrequencyCheck e ad c
      | Some p \<Rightarrow> snd (vibrate (s_vib e) (PArr p) (afterFrequencyCheck e ad c)))
     \<lparr> lastSyncTime := Some (s_now e) \<rparr>"
proof -
  obtain x where x: "afterFrequencyCheck e ad c = c\<lparr> lastFrequencyData := x \<rparr>"
    using detectFrequencyChange_state [of "s_freqNow e" "frequency ad" c]
    by (auto simp: afterFrequencyCheck_def)
  have "detectFrequencyChange (s_freqNow e) (frequency ad) c = (True, afterFrequencyCheck e ad c)"
    using assms(3) by (simp add: frequencyFires_def afterFrequencyCheck_def prod_eq_iff)
  then have "syncWithoutBeat e ad c =
      (handleFrequencyVibration (s_vib e) fd (afterFrequencyCheck e ad c))
        \<lparr> lastSyncTime := Some (s_now e) \<rparr>"
    using assms(2) by (simp add: syncWithoutBeat_def)
  moreover have "frequencyPattern (afterFrequencyCheck e ad c) fd = frequencyPattern c fd"
    by (simp add: x)
  ultimately show ?thesis
    using assms(1) by (simp add: sync_no_beat handleFrequencyVibration_def)
qed

lemma sync_volume:
  assumes "\<not> beatDetected ad" "\<not> frequencyFires e ad c" "volume ad = Some vd"
    "volumeFires e ad c"
  shows "syncVibrationWithAudio e ad c =
     (case volumePattern c (level vd) of
        None \<Rightarrow> afterVolumeCheck e ad c
      | Some p \<Rightarrow> snd (vibrate (s_vib e) (PArr p) (afterVolumeCheck e ad c)))
     \<lparr> lastSyncTime := Some (s_now e) \<rparr>"
proof -
  obtain x where x: "afterFrequencyCheck e ad c = c\<lparr> lastFrequencyData := x \<rparr>"
    using detectFrequencyChange_state [of "s_freqNow e" "frequency ad" c]
    by (auto simp: afterFrequencyCheck_def)
  obtain y where y: "afterVolumeCheck e ad c = (afterFrequencyCheck e ad c)\<lparr> lastVolumeData := y \<rparr>"
    using detectVolumeChange_state [of "s_volNow e" "volume ad" "afterFrequencyCheck e ad c"]
    by (auto simp: afterVolumeCheck_def)
  have f: "detectFrequencyChange (s_freqNow e) (frequency ad) c
             = (False, afterFrequencyCheck e ad c)"
    using assms(2) by (simp add: frequencyFires_def afterFrequencyCheck_def prod_eq_iff)
  have v: "detectVolumeChange (s_volNow e) (volume ad) (afterFrequencyCheck e ad c)
             = (True, afterVolumeCheck e ad c)"
    using assms(4) by (simp add: volumeFires_def afterVolumeCheck_def prod_eq_iff)
  have "syncWithoutBeat e ad c =
      (handleVolumeVibration (s_vib e) (level vd) (afterVolumeCheck e ad c))
        \<lparr> lastSyncTime := Some (s_now e) \<rparr>"
    by (simp only: syncWithoutBeat_def f v prod.case bool.case) (simp add: assms(3))
  moreover have "volumePattern (afterVolumeCheck e ad c) (level vd) = volumePattern c (level vd)"
    by (simp add: y x)
  ultimately show ?thesis
    using assms(1) by (simp add: sync_no_beat handleVolumeVibration_def)
qed

lemma sync_nothing:
  assumes "\<not> beatDetected ad" "\<not> frequencyFires e ad c" "\<not> volumeFires e ad c"
  shows "syncVibrationWithAudio e ad c = afterVolumeCheck e ad c"
proof -
  have f: "detectFrequencyChange (s_freqNow e) (frequency ad) c
             = (False, afterFrequencyCheck e ad c)"
    using assms(2) by (simp add: frequencyFires_def afterFrequencyCheck_def prod_eq_iff)
  have v: "detectVolumeChange (s_volNow e) (volume ad) (afterFrequencyCheck e ad c)
             = (False, afterVolumeCheck e ad c)"
    using assms(3) by (simp add: volumeFires_def afterVolumeCheck_def prod_eq_iff)
  show ?thesis using assms(1) by (simp add: sync_no_beat syncWithoutBeat_def f v)
qed

lemma emitted_case:
  "emitted c ((case po of None \<Rightarrow> c' | Some p \<Rightarrow> snd (vibrate e (PArr p) c'))\<lparr> lastSyncTime := t \<rparr>)
     = (case po of None \<Rightarrow> emitted c c' | Some p \<Rightarrow> emitted c (snd (vibrate e (PArr p) c')))"
  by (simp split: option.splits)

text \<open>
  C4.  \<open>syncVibrationWithAudio\<close> takes exactly one of four paths, tested in this
  order.

  \<^item> The tick carries a detected beat: the call is one \<open>vibrate\<close> of the beat's pattern.
    The actuator receives the compensated beat pattern if \<open>vibrate\<close> accepts it, and
    nothing otherwise; the frequency and volume detectors are not run (the values they
    store stay), whatever transient or swell the tick carries.
  \<^item> No detected beat, and the frequency detector fires: the detector stores the
    tick's spectrum, and the call is one \<open>vibrate\<close> of the frequency pattern, if there
    is one.  The volume detector is not run.
  \<^item> No detected beat, the frequency detector has run and does not fire, and the
    volume detector fires on the controller that it left: the detector stores the
    tick's volume, and the call is one \<open>vibrate\<close> of the volume pattern, if there is
    one.
  \<^item> None of the three: both detectors have run, nothing reaches the actuator and the
    sync time stays.

  A detector fires only on a value that is present.  On every tick at most one pattern
  reaches the actuator.
\<close>

theorem sync_priority:
  "(beat ad = Some b \<and> detected b \<longrightarrow>
      syncVibrationWithAudio e ad c =
        (snd (vibrate (s_vib e) (PArr (beatPattern b)) c))\<lparr> lastSyncTime := Some (s_now e) \<rparr> \<and>
      emitted c (syncVibrationWithAudio e ad c) = sent (s_vib e) c (beatPattern b) \<and>
      lastFrequencyData (syncVibrationWithAudio e ad c) = lastFrequencyData c \<and>
      lastVolumeData (syncVibrationWithAudio e ad c) = lastVolumeData c) \<and>
   (\<not> beatDetected ad \<and> frequency ad = Some fd \<and> frequencyFires e ad c \<longrightarrow>
      syncVibrationWithAudio e ad c =
        (case frequencyPattern c fd of
           None \<Rightarrow> afterFrequencyCheck e ad c
         | Some p \<Rightarrow> snd (vibrate (s_vib e) (PArr p) (afterFrequencyCheck e ad c)))
        \<lparr> lastSyncTime := Some (s_now e) \<rparr> \<and>
      emitted c (syncVibrationWithAudio e ad c) =
        (case frequencyPattern c fd of None \<Rightarrow> [] | Some p \<Rightarrow> sent (s_vib e) c p) \<and>
      lastFrequencyData (syncVibrationWithAudio e ad c) = Some fd \<and>
      lastVolumeData (syncVibrationWithAudio e ad c) = lastVolumeData c) \<and>
   (\<not> beatDetected ad \<and> \<not> frequencyFires e ad c \<and> volume ad = Some vd \<and> volumeFires e ad c \<longrightarrow>
      syncVibrationWithAudio e ad c =
        (case volumePattern c (level vd) of
           None \<Rightarrow> afterVolumeCheck e ad c
         | Some p \<Rightarrow> snd (vibrate (s_vib e) (PArr p) (afterVolumeCheck e ad c)))
        \<lparr> lastSyncTime := Some (s_now e) \<rparr> \<and>
      emitted c (syncVibrationWithAudio e ad c) =
        (case volumePattern c (level vd) of None \<Rightarrow> [] | Some p \<Rightarrow> sent (s_vib e) c p) \<and>
      lastFrequencyData (syncVibrationWithAudio e ad c)
        = lastFrequencyData (afterFrequencyCheck e ad c) \<and>
      lastVolumeData (syncVibrationWithAudio e ad c) = Some vd) \<and>
   (\<not> beatDetected ad \<and> \<not> frequencyFires e ad c \<and> \<not> volumeFires e ad c \<longrightarrow>
      syncVibrationWithAudio e ad c = afterVolumeCheck e ad c \<and>
      emitted c (syncVibrationWithAudio e ad c) = []) \<and>
   (frequencyFires e ad c \<longrightarrow> frequency ad \<noteq> None) \<and>
   (volumeFires e ad c \<longrightarrow> volume ad \<noteq> None) \<and>
   length (emitted c (syncVibrationWithAudio e ad c)) \<le> 1 \<and>
   actuatorCalls (syncVibrationWithAudio e ad c)
     = actuatorCalls c @ emitted c (syncVibrationWithAudio e ad c)"
proof -
  obtain x where x: "afterFrequencyCheck e ad c = c\<lparr> lastFrequencyData := x \<rparr>"
    using detectFrequencyChange_state [of "s_freqNow e" "frequency ad" c]
    by (auto simp: afterFrequencyCheck_def)
  obtain y where y': "afterVolumeCheck e ad c = (afterFrequencyCheck e ad c)\<lparr> lastVolumeData := y \<rparr>"
    using detectVolumeChange_state [of "s_volNow e" "volume ad" "afterFrequencyCheck e ad c"]
    by (auto simp: afterVolumeCheck_def)
  have y: "afterVolumeCheck e ad c = c\<lparr> lastFrequencyData := x, lastVolumeData := y \<rparr>"
    by (simp add: y' x)
  have ff: "frequencyFires e ad c \<Longrightarrow>
      frequency ad \<noteq> None \<and> lastFrequencyData (afterFrequencyCheck e ad c) = frequency ad"
    using detectFrequencyChange_fires [of "s_freqNow e" "frequency ad" c]
    by (simp add: frequencyFires_def afterFrequencyCheck_def)
  have vf: "volumeFires e ad c \<Longrightarrow>
      volume ad \<noteq> None \<and> lastVolumeData (afterVolumeCheck e ad c) = volume ad"
    using detectVolumeChange_fires [of "s_volNow e" "volume ad" "afterFrequencyCheck e ad c"]
    by (simp add: volumeFires_def afterVolumeCheck_def)
  have em: "\<And>c' p. actuatorCalls c' = actuatorCalls c \<Longrightarrow>
      emitted c (snd (vibrate (s_vib e) (PArr p) c')) = sent (s_vib e) c' p"
    using emitted_same_calls vibrate_sent(1) by metis
  have A: "beat ad = Some b \<and> detected b \<longrightarrow>
      syncVibrationWithAudio e ad c =
        (snd (vibrate (s_vib e) (PArr (beatPattern b)) c))\<lparr> lastSyncTime := Some (s_now e) \<rparr> \<and>
      emitted c (syncVibrationWithAudio e ad c) = sent (s_vib e) c (beatPattern b) \<and>
      lastFrequencyData (syncVibrationWithAudio e ad c) = lastFrequencyData c \<and>
      lastVolumeData (syncVibrationWithAudio e ad c) = lastVolumeData c"
    by (simp add: sync_beat vibrate_sent vibrate_detector_fields)
  have B: "\<not> beatDetected ad \<and> frequency ad = Some fd \<and> frequencyFires e ad c \<longrightarrow>
      syncVibrationWithAudio e ad c =
        (case frequencyPattern c fd of
           None \<Rightarrow> afterFrequencyCheck e ad c
         | Some p \<Rightarrow> snd (vibrate (s_vib e) (PArr p) (afterFrequencyCheck e ad c)))
        \<lparr> lastSyncTime := Some (s_now e) \<rparr> \<and>
      emitted c (syncVibrationWithAudio e ad c) =
        (case frequencyPattern c fd of None \<Rightarrow> [] | Some p \<Rightarrow> sent (s_vib e) c p) \<and>
      lastFrequencyData (syncVibrationWithAudio e ad c) = Some fd \<and>
      lastVolumeData (syncVibrationWithAudio e ad c) = lastVolumeData c"
  proof (intro impI, elim conjE)
    assume h: "\<not> beatDetected ad" "frequency ad = Some fd" "frequencyFires e ad c"
    note s = sync_frequency [OF h]
    have l: "lastFrequencyData (afterFrequencyCheck e ad c) = Some fd" using ff h by simp
    have v: "lastVolumeData (afterFrequencyCheck e ad c) = lastVolumeData c" by (simp add: x)
    have "emitted c (syncVibrationWithAudio e ad c) =
        (case frequencyPattern c fd of None \<Rightarrow> [] | Some p \<Rightarrow> sent (s_vib e) c p)"
      unfolding s emitted_case by (simp add: x em split: option.splits)
    moreover have "lastFrequencyData (syncVibrationWithAudio e ad c) = Some fd"
      unfolding s using l by (simp add: vibrate_detector_fields split: option.splits)
    moreover have "lastVolumeData (syncVibrationWithAudio e ad c) = lastVolumeData c"
      unfolding s using v by (simp add: vibrate_detector_fields split: option.splits)
    ultimately show "syncVibrationWithAudio e ad c =
        (case frequencyPattern c fd of
           None \<Rightarrow> afterFrequencyCheck e ad c
         | Some p \<Rightarrow> snd (vibrate (s_vib e) (PArr p) (afterFrequencyCheck e ad c)))
        \<lparr> lastSyncTime := Some (s_now e) \<rparr> \<and>
      emitted c (syncVibrationWithAudio e ad c) =
        (case frequencyPattern c fd of None \<Rightarrow> [] | Some p \<Rightarrow> sent (s_vib e) c p) \<and>
      lastFrequencyData (syncVibrationWithAudio e ad c) = Some fd \<and>
      lastVolumeData (syncVibrationWithAudio e ad c) = lastVolumeData c"
      using s by simp
  qed
  have C: "\<not> beatDetected ad \<and> \<not> frequencyFires e ad c \<and> volume ad = Some vd \<and>
      volumeFires e ad c \<longrightarrow>
      syncVibrationWithAudio e ad c =
        (case volumePattern c (level vd) of
           None \<Rightarrow> afterVolumeCheck e ad c
         | Some p \<Rightarrow> snd (vibrate (s_vib e) (PArr p) (afterVolumeCheck e ad c)))
        \<lparr> lastSyncTime := Some (s_now e) \<rparr> \<and>
      emitted c (syncVibrationWithAudio e ad c) =
        (case volumePattern c (level vd) of None \<Rightarrow> [] | Some p \<Rightarrow> sent (s_vib e) c p) \<and>
      lastFrequencyData (syncVibrationWithAudio e ad c)
        = lastFrequencyData (afterFrequencyCheck e ad c) \<and>
      lastVolumeData (syncVibrationWithAudio e ad c) = Some vd"
  proof (intro impI, elim conjE)
    assume h: "\<not> beatDetected ad" "\<not> frequencyFires e ad c" "volume ad = Some vd"
      "volumeFires e ad c"
    note s = sync_volume [OF h]
    have l: "lastVolumeData (afterVolumeCheck e ad c) = Some vd" using vf h by simp
    have f: "lastFrequencyData (afterVolumeCheck e ad c)
               = lastFrequencyData (afterFrequencyCheck e ad c)" by (simp add: y')
    have "emitted c (syncVibrationWithAudio e ad c) =
        (case volumePattern c (level vd) of None \<Rightarrow> [] | Some p \<Rightarrow> sent (s_vib e) c p)"
      unfolding s emitted_case by (simp add: y em split: option.splits)
    moreover have "lastVolumeData (syncVibrationWithAudio e ad c) = Some vd"
      unfolding s using l by (simp add: vibrate_detector_fields split: option.splits)
    moreover have "lastFrequencyData (syncVibrationWithAudio e ad c)
        = lastFrequencyData (afterFrequencyCheck e ad c)"
      unfolding s using f by (simp add: vibrate_detector_fields split: option.splits)
    ultimately show "syncVibrationWithAudio e ad c =
        (case volumePattern c (level vd) of
           None \<Rightarrow> afterVolumeCheck e ad c
         | Some p \<Rightarrow> snd (vibrate (s_vib e) (PArr p) (afterVolumeCheck e ad c)))
        \<lparr> lastSyncTime := Some (s_now e) \<rparr> \<and>
      emitted c (syncVibrationWithAudio e ad c) =
        (case volumePattern c (level vd) of None \<Rightarrow> [] | Some p \<Rightarrow> sent (s_vib e) c p) \<and>
      lastFrequencyData (syncVibrationWithAudio e ad c)
        = lastFrequencyData (afterFrequencyCheck e ad c) \<and>
      lastVolumeData (syncVibrationWithAudio e ad c) = Some vd"
      using s by simp
  qed
  have D: "\<not> beatDetected ad \<and> \<not> frequencyFires e ad c \<and> \<not> volumeFires e ad c \<longrightarrow>
      syncVibrationWithAudio e ad c = afterVolumeCheck e ad c \<and>
      emitted c (syncVibrationWithAudio e ad c) = []"
    by (simp add: sync_nothing y emitted_def)
  have E: "(frequencyFires e ad c \<longrightarrow> frequency ad \<noteq> None) \<and>
      (volumeFires e ad c \<longrightarrow> volume ad \<noteq> None)"
    using ff vf by simp
  have F: "length (emitted c (syncVibrationWithAudio e ad c)) \<le> 1 \<and>
      actuatorCalls (syncVibrationWithAudio e ad c)
        = actuatorCalls c @ emitted c (syncVibrationWithAudio e ad c)"
  proof (cases "beatDetected ad")
    case True
    then obtain b' where b': "beat ad = Some b'" "detected b'"
      by (auto simp: beatDetected_def split: option.splits)
    show ?thesis by (simp add: sync_beat [OF b'] vibrate_sent)
  next
    case nb: False
    show ?thesis
    proof (cases "frequencyFires e ad c")
      case True
      then obtain fd' where fd': "frequency ad = Some fd'" using ff by auto
      show ?thesis
        unfolding sync_frequency [OF nb fd' True] x
        by (simp add: vibrate_sent emitted_def split: option.splits)
    next
      case nf: False
      show ?thesis
      proof (cases "volumeFires e ad c")
        case True
        then obtain vd' where vd': "volume ad = Some vd'" using vf by auto
        show ?thesis
          unfolding sync_volume [OF nb nf vd' True] y
          by (simp add: vibrate_sent emitted_def split: option.splits)
      next
        case False
        show ?thesis by (simp add: sync_nothing [OF nb nf False] y emitted_def)
      qed
    qed
  qed
  show ?thesis using A B C D E F by blast
qed

text \<open>
  Four ticks on a controller that is enabled and has seen a quiet tick, with a
  compensation of 20 ms.  A tick that carries a kick beat, a bass transient and a
  volume swell at once (the volume pattern would be \<open>[150, 50]\<close>, the frequency pattern
  \<open>[800, 100]\<close>): the actuator receives the beat pattern \<open>[300, 50]\<close>, shortened by the
  compensation, and the stored volume stays that of the tick before.  The same tick
  without the beat: the actuator receives the frequency pattern, and the stored volume
  stays.  A tick with the swell only: the actuator receives the volume pattern, and
  the swell is stored.  A tick on which nothing changes: the actuator receives
  nothing.
\<close>

theorem sync_priority_witness:
  "beat beatTick = Some kickBeatEvent \<and> detected kickBeatEvent \<and>
   fst (detectFrequencyChange 1000 (frequency beatTick) swellController) \<and>
   fst (detectVolumeChange 1000 (volume beatTick) swellController) \<and>
   volumePattern swellController (level loudVolume) = Some [Num 150, Num 50] \<and>
   frequencyPattern swellController bassyFrequency = Some [Num 800, Num 100] \<and>
   emitted swellController (syncVibrationWithAudio swellEnv beatTick swellController)
     = [PArr [Num 280, Num 50]] \<and>
   lastVolumeData (syncVibrationWithAudio swellEnv beatTick swellController)
     = Some quietVolume \<and>
   \<not> beatDetected transientTick \<and> frequency transientTick = Some bassyFrequency \<and>
   frequencyFires swellEnv transientTick swellController \<and>
   emitted swellController (syncVibrationWithAudio swellEnv transientTick swellController)
     = [PArr [Num 780, Num 100]] \<and>
   lastVolumeData (syncVibrationWithAudio swellEnv transientTick swellController)
     = Some quietVolume \<and>
   \<not> beatDetected volumeTick \<and> \<not> frequencyFires swellEnv volumeTick swellController \<and>
   volume volumeTick = Some loudVolume \<and> volumeFires swellEnv volumeTick swellController \<and>
   emitted swellController (syncVibrationWithAudio swellEnv volumeTick swellController)
     = [PArr [Num 130, Num 50]] \<and>
   lastVolumeData (syncVibrationWithAudio swellEnv volumeTick swellController)
     = Some loudVolume \<and>
   \<not> beatDetected calmTick \<and> \<not> frequencyFires swellEnv calmTick swellController \<and>
   \<not> volumeFires swellEnv calmTick swellController \<and>
   emitted swellController (syncVibrationWithAudio swellEnv calmTick swellController) = []"
proof -
  have b: "beat beatTick = Some kickBeatEvent \<and> detected kickBeatEvent"
    by (simp add: data_defs)
  have f: "fst (detectFrequencyChange 1000 (Some bassyFrequency) swellController)"
    by (simp add: detectFrequencyChange_def controller_defs data_defs)
  have v: "fst (detectVolumeChange 1000 (Some loudVolume) swellController)"
    by (simp add: detectVolumeChange_def controller_defs data_defs js_sub_def)
  have vp: "volumePattern swellController (level loudVolume) = Some [Num 150, Num 50]"
    by (simp add: volumePattern_def controller_defs data_defs)
  have fp: "frequencyPattern swellController bassyFrequency = Some [Num 800, Num 100]"
    by (simp add: frequencyPattern_def controller_defs data_defs)
  have bp: "beatPattern kickBeatEvent = [Num 300, Num 50]"
    by (simp add: beatPattern_def data_defs)
  have st: "\<And>x y. sent (s_vib swellEnv) swellController [Num x, y]
              = [PArr [Num (max 10 (x - 20)), y]]"
    by (simp add: sent_def accepts_def applyLatencyCompensation_def controller_defs js_sub_def)
  have lv: "lastVolumeData swellController = Some quietVolume"
    by (simp add: swellController_def)
  have fv: "frequency beatTick = Some bassyFrequency" "volume beatTick = Some loudVolume"
    by (simp_all add: beatTick_def)
  have se: "s_freqNow swellEnv = 1000" "s_volNow swellEnv = 1000"
    by (simp_all add: swellEnv_def)
  have nb: "\<not> beatDetected transientTick" "\<not> beatDetected volumeTick" "\<not> beatDetected calmTick"
    by (simp_all add: beatDetected_def data_defs)
  have tf: "frequency transientTick = Some bassyFrequency"
    by (simp add: transientTick_def)
  have ff: "frequencyFires swellEnv transientTick swellController"
    using f by (simp add: frequencyFires_def tf se)
  have q: "detectFrequencyChange 1000 (Some quietFrequency) swellController
             = (False, swellController)"
    by (simp add: detectFrequencyChange_def controller_defs data_defs)
  have vq: "frequency volumeTick = Some quietFrequency" "volume volumeTick = Some loudVolume"
    "frequency calmTick = Some quietFrequency" "volume calmTick = Some quietVolume"
    by (simp_all add: volumeTick_def calmTick_def)
  have nf: "\<not> frequencyFires swellEnv volumeTick swellController"
    "\<not> frequencyFires swellEnv calmTick swellController"
    by (simp_all add: frequencyFires_def vq q se)
  have ac: "afterFrequencyCheck swellEnv volumeTick swellController = swellController"
    "afterFrequencyCheck swellEnv calmTick swellController = swellController"
    by (simp_all add: afterFrequencyCheck_def vq q se)
  have vf: "volumeFires swellEnv volumeTick swellController"
    using v by (simp add: volumeFires_def ac vq se)
  have qv: "\<not> fst (detectVolumeChange 1000 (Some quietVolume) swellController)"
    by (simp add: detectVolumeChange_def controller_defs data_defs js_sub_def)
  have nv: "\<not> volumeFires swellEnv calmTick swellController"
    using qv by (simp add: volumeFires_def ac vq se)
  note p1 = sync_priority [of beatTick kickBeatEvent swellEnv swellController
      bassyFrequency loudVolume]
  note beatCase = p1 [THEN conjunct1, THEN mp, OF b]
  have r1: "emitted swellController (syncVibrationWithAudio swellEnv beatTick swellController)
      = [PArr [Num 280, Num 50]]"
    using beatCase [THEN conjunct2, THEN conjunct1] by (simp add: bp st)
  have l1: "lastVolumeData (syncVibrationWithAudio swellEnv beatTick swellController)
      = Some quietVolume"
    using beatCase [THEN conjunct2, THEN conjunct2, THEN conjunct2] by (simp add: lv)
  note p2 = sync_priority [of transientTick kickBeatEvent swellEnv swellController
      bassyFrequency loudVolume]
  note transientCase = p2 [THEN conjunct2, THEN conjunct1, THEN mp, OF conjI [OF nb(1) conjI [OF tf ff]]]
  have r2: "emitted swellController
              (syncVibrationWithAudio swellEnv transientTick swellController)
      = [PArr [Num 780, Num 100]]"
    using transientCase [THEN conjunct2, THEN conjunct1] by (simp add: fp st)
  have l2: "lastVolumeData (syncVibrationWithAudio swellEnv transientTick swellController)
      = Some quietVolume"
    using transientCase [THEN conjunct2, THEN conjunct2, THEN conjunct2] by (simp add: lv)
  note p3 = sync_priority [of volumeTick kickBeatEvent swellEnv swellController
      bassyFrequency loudVolume]
  note volumeCase = p3 [THEN conjunct2, THEN conjunct2, THEN conjunct1, THEN mp,
      OF conjI [OF nb(2) conjI [OF nf(1) conjI [OF vq(2) vf]]]]
  have r3: "emitted swellController (syncVibrationWithAudio swellEnv volumeTick swellController)
      = [PArr [Num 130, Num 50]]"
    using volumeCase [THEN conjunct2, THEN conjunct1] by (simp add: vp st)
  have l3: "lastVolumeData (syncVibrationWithAudio swellEnv volumeTick swellController)
      = Some loudVolume"
    using volumeCase [THEN conjunct2, THEN conjunct2, THEN conjunct2] by simp
  note p4 = sync_priority [of calmTick kickBeatEvent swellEnv swellController
      bassyFrequency loudVolume]
  note calmCase = p4 [THEN conjunct2, THEN conjunct2, THEN conjunct2, THEN conjunct1, THEN mp,
      OF conjI [OF nb(3) conjI [OF nf(2) nv]]]
  have r4: "emitted swellController (syncVibrationWithAudio swellEnv calmTick swellController)
      = []"
    using calmCase [THEN conjunct2] by simp
  show ?thesis
    using b f v vp fp r1 l1 nb tf ff r2 l2 nf vq(2) vf r3 l3 nv r4 by (simp add: fv)
qed

section \<open>The rate limits of the detectors\<close>

text \<open>
  C10 as stated fails.  A controller that vibrated at time 1000 and holds the quiet
  frequencies of the tick before is shown the bass-heavy frequencies at time 1100,
  inside the 150 ms window: the detector returns \<open>false\<close>, and the stored previous
  value is still the quiet one, not overwritten.
\<close>

theorem detectFrequencyChange_keeps_previous:
  "1100 - lastVibrationTime busyController < 150 \<and>
   fst (detectFrequencyChange 1100 (Some bassyFrequency) busyController) = False \<and>
   lastFrequencyData (snd (detectFrequencyChange 1100 (Some bassyFrequency) busyController))
     = Some quietFrequency \<and>
   Some quietFrequency \<noteq> Some bassyFrequency"
  by (simp add: detectFrequencyChange_def controller_defs data_defs)

text \<open>
  C10, amended.  Within 150 ms of the last actuation \<open>detectFrequencyChange\<close> returns
  \<open>false\<close>, and within 200 ms \<open>detectVolumeChange\<close> does.  The stored previous value
  is overwritten in that case only when the incoming value or the stored one is
  absent; when both are present the controller is left as it was.
\<close>

theorem detectors_rate_limit:
  "(now - lastVibrationTime c < 150 \<longrightarrow>
      detectFrequencyChange now fdOpt c =
        (False, if fdOpt \<noteq> None \<and> lastFrequencyData c \<noteq> None then c
                else c\<lparr> lastFrequencyData := fdOpt \<rparr>)) \<and>
   (now - lastVibrationTime c < 200 \<longrightarrow>
      detectVolumeChange now vdOpt c =
        (False, if vdOpt \<noteq> None \<and> lastVolumeData c \<noteq> None then c
                else c\<lparr> lastVolumeData := vdOpt \<rparr>))"
  by (auto simp: detectFrequencyChange_def detectVolumeChange_def split: option.splits)

text \<open>The controller of the counterexample, 100 ms after its last actuation.\<close>

theorem detectors_rate_limit_witness:
  "1100 - lastVibrationTime busyController < 150 \<and>
   1100 - lastVibrationTime busyController < 200 \<and>
   detectFrequencyChange 1100 (Some bassyFrequency) busyController = (False, busyController) \<and>
   detectVolumeChange 1100 (Some loudVolume) busyController = (False, busyController)"
  using detectors_rate_limit [of 1100 busyController "Some bassyFrequency" "Some loudVolume"]
  by (simp add: controller_defs)

section \<open>The tempo estimate\<close>












lemma upperMiddle_mem: "xs \<noteq> [] \<Longrightarrow> upperMiddle xs \<in> set xs"
proof -
  assume "xs \<noteq> []"
  then have "length xs div 2 < length (sort xs)" by (cases xs) simp_all
  then have "sort xs ! (length xs div 2) \<in> set (sort xs)" by (rule nth_mem)
  then show ?thesis by (simp add: upperMiddle_def)
qed

lemma sum_list_pos_int: "xs \<noteq> [] \<Longrightarrow> \<forall>d\<in>set xs. (0::int) < d \<Longrightarrow> 0 < sum_list xs"
  by (induction xs) (auto simp: add_pos_nonneg sum_list_nonneg less_imp_le)

lemma mean_pos: "xs \<noteq> [] \<Longrightarrow> \<forall>d\<in>set xs. 0 < d \<Longrightarrow> 0 < mean xs"
  using sum_list_pos_int [of xs] by (simp add: mean_def)


subsection \<open>Rounding to a double\<close>

text \<open>
  \<open>exponentOf\<close> is the binary exponent, \<open>fl64\<close> is off by at most the relative error
  \<open>2^-53\<close>, and \<open>fl64\<close> is evaluated by scaling the argument into \<open>[2^52, 2^53)\<close>.
\<close>

lemma exponentOf_bounds:
  assumes "x \<noteq> 0"
  shows "2 powi (exponentOf x) \<le> \<bar>x\<bar> \<and> \<bar>x\<bar> < 2 powi (exponentOf x + 1)"
proof (cases "1 \<le> \<bar>x\<bar>")
  case True
  define n where "n = \<lfloor>\<bar>x\<bar>\<rfloor>"
  have n: "0 < n" using True by (simp add: n_def)
  have e: "exponentOf x = bitlen n - 1" using True by (simp add: exponentOf_def n_def)
  have b: "1 \<le> bitlen n" using n by (auto simp: bitlen_alt_def)
  note bb = bitlen_bounds [OF n]
  have "real_of_int (2 ^ nat (bitlen n - 1)) \<le> real_of_int n" using bb by linarith
  also have "\<dots> \<le> \<bar>x\<bar>" by (simp add: n_def)
  finally have lo: "2 ^ nat (bitlen n - 1) \<le> \<bar>x\<bar>" by simp
  have "\<bar>x\<bar> < real_of_int (n + 1)" unfolding n_def by linarith
  also have "\<dots> \<le> real_of_int (2 ^ nat (bitlen n))" using bb by linarith
  finally have hi: "\<bar>x\<bar> < 2 ^ nat (bitlen n)" by simp
  show ?thesis using lo hi b by (simp add: e power_int_def)
next
  case False
  define y where "y = 1 / \<bar>x\<bar>"
  define m where "m = \<lceil>y\<rceil>"
  have x: "0 < \<bar>x\<bar>" "\<bar>x\<bar> < 1" using assms False by simp_all
  have y: "1 < y" using x by (simp add: y_def)
  have m: "0 < m - 1" using y unfolding m_def by linarith
  define k where "k = bitlen (m - 1)"
  have e: "exponentOf x = - k" using False by (simp add: exponentOf_def k_def m_def y_def)
  have k: "1 \<le> k" using m by (auto simp: bitlen_alt_def k_def)
  note bb = bitlen_bounds [OF m, folded k_def]
  have "y \<le> real_of_int m" by (simp add: m_def)
  also have "\<dots> \<le> real_of_int (2 ^ nat k)" using bb by linarith
  finally have "y \<le> 2 ^ nat k" by simp
  then have "1 \<le> \<bar>x\<bar> * 2 ^ nat k" using x by (simp add: y_def field_simps)
  then have lo: "1 / 2 ^ nat k \<le> \<bar>x\<bar>" by (simp add: field_simps)
  have "real_of_int (2 ^ nat (k - 1)) \<le> real_of_int (m - 1)" using bb by linarith
  also have "\<dots> < y" unfolding m_def by linarith
  finally have "2 ^ nat (k - 1) < y" by simp
  then have "\<bar>x\<bar> * 2 ^ nat (k - 1) < 1" using x by (simp add: y_def field_simps)
  then have hi: "\<bar>x\<bar> < 1 / 2 ^ nat (k - 1)" by (simp add: field_simps)
  have a: "(2::real) powi (- k) = 1 / 2 ^ nat k"
    using k by (simp add: power_int_minus power_int_def field_simps)
  have "(2::real) powi (- (k - 1)) = 1 / 2 ^ nat (k - 1)"
    using k by (simp only: power_int_minus) (simp add: power_int_def field_simps)
  then have b: "(2::real) powi (- k + 1) = 1 / 2 ^ nat (k - 1)" by simp
  show ?thesis using lo hi by (simp only: e a b)
qed

lemma exponentOf_log: "x \<noteq> 0 \<Longrightarrow> exponentOf x = \<lfloor>log 2 \<bar>x\<bar>\<rfloor>"
proof -
  assume x: "x \<noteq> 0"
  have p: "\<And>k::int. (2::real) powi k = 2 powr of_int k" by (simp add: powr_real_of_int')
  from exponentOf_bounds [OF x]
  have "2 powr of_int (exponentOf x) \<le> \<bar>x\<bar>" "\<bar>x\<bar> < 2 powr (of_int (exponentOf x) + 1)"
    by (simp_all add: p add.commute)
  then have "of_int (exponentOf x) \<le> log 2 \<bar>x\<bar>" "log 2 \<bar>x\<bar> < of_int (exponentOf x) + 1"
    using x by (simp_all add: le_log_iff log_less_iff)
  then have "\<lfloor>log 2 \<bar>x\<bar>\<rfloor> = exponentOf x" by (simp add: floor_eq_iff)
  then show ?thesis by simp
qed

lemma powi_powr: "(2::real) powi k = 2 powr of_int k"
  by (simp add: powr_real_of_int')

lemma fl64_log:
  "x \<noteq> 0 \<Longrightarrow>
   fl64 x = (let s = 2 powr (52 - of_int \<lfloor>log 2 \<bar>x\<bar>\<rfloor>) in of_int (round_even (x * s)) / s)"
  by (simp add: fl64_def exponentOf_log powi_powr Let_def)

lemma round_even_err: "\<bar>of_int (round_even y) - y\<bar> \<le> 1 / 2"
  unfolding round_even_def Let_def by (auto; linarith)

lemma fl64_err: "\<bar>fl64 x - x\<bar> \<le> \<bar>x\<bar> / 2 ^ 53"
proof (cases "x = 0")
  case True
  then show ?thesis by (simp add: fl64_def)
next
  case False
  define e where "e = \<lfloor>log 2 \<bar>x\<bar>\<rfloor>"
  define s where "s = (2::real) powr (52 - of_int e)"
  have s: "0 < s" by (simp add: s_def)
  have fl: "fl64 x = of_int (round_even (x * s)) / s"
    using False by (simp add: fl64_log Let_def s_def e_def)
  have "of_int e \<le> log 2 \<bar>x\<bar>" by (simp add: e_def)
  then have "(2::real) powr (of_int e) \<le> \<bar>x\<bar>" using False by (simp add: le_log_iff)
  then have "2 powr (of_int e) * s \<le> \<bar>x\<bar> * s" using s by simp
  moreover have "2 powr (of_int e) * s = 2 ^ 52"
    by (simp add: s_def powr_add [symmetric] flip: powr_realpow)
  ultimately have big: "2 ^ 52 \<le> \<bar>x\<bar> * s" by simp
  have "\<bar>fl64 x - x\<bar> = \<bar>of_int (round_even (x * s)) - x * s\<bar> / s"
    using s by (simp add: fl field_simps abs_divide)
  also have "\<dots> \<le> (1 / 2) / s"
    by (rule divide_right_mono [OF round_even_err]) (use s in simp)
  also have "\<dots> \<le> \<bar>x\<bar> / 2 ^ 53" using big s by (simp add: field_simps)
  finally show ?thesis .
qed


text \<open>A double of a positive number lies within the relative error \<open>2^-53\<close>.\<close>

lemma fl64_rounded:
  assumes "0 < A" "0 < lo" "A * lo \<le> x" "x \<le> A * hi"
  shows "A * (lo * (1 - 1 / 2 ^ 53)) \<le> fl64 x \<and> fl64 x \<le> A * (hi * (1 + 1 / 2 ^ 53))"
proof -
  have "0 < A * lo" using assms(1,2) by simp
  then have x: "0 < x" using assms(3) by linarith
  have e: "\<bar>fl64 x - x\<bar> \<le> x / 2 ^ 53" using fl64_err [of x] x by simp
  have "x - x / 2 ^ 53 \<le> fl64 x" using e by linarith
  then have "x * (1 - 1 / 2 ^ 53) \<le> fl64 x" by (simp add: algebra_simps)
  moreover have "(A * lo) * (1 - 1 / 2 ^ 53) \<le> x * (1 - 1 / 2 ^ 53)"
    using assms(3) by (intro mult_right_mono) simp_all
  moreover have "fl64 x \<le> x + x / 2 ^ 53" using e by linarith
  then have "fl64 x \<le> x * (1 + 1 / 2 ^ 53)" by (simp add: algebra_simps)
  moreover have "x * (1 + 1 / 2 ^ 53) \<le> (A * hi) * (1 + 1 / 2 ^ 53)"
    using assms(4) by (intro mult_right_mono) simp_all
  ultimately show ?thesis by (simp add: mult.assoc)
qed

lemma scaled_product:
  fixes A B x y :: real
  assumes "0 < A" "0 < lo" "A * lo \<le> x" "x \<le> A * hi"
    "0 < B" "0 < lo'" "B * lo' \<le> y" "y \<le> B * hi'"
  shows "(A * B) * (lo * lo') \<le> x * y \<and> x * y \<le> (A * B) * (hi * hi')"
proof -
  have "0 < A * lo" "0 < B * lo'" using assms(1,2,5,6) by simp_all
  then have x: "0 < x" and y: "0 < y" using assms(3,7) by linarith+
  have "(A * lo) * (B * lo') \<le> x * y"
    using assms x y by (intro mult_mono) (simp_all add: less_imp_le)
  moreover have "x * y \<le> (A * hi) * (B * hi')"
    using assms x y by (intro mult_mono) (simp_all add: less_imp_le)
  ultimately show ?thesis by (simp add: mult_ac)
qed

text \<open>
  The divisor in double precision is positive for positive intervals, and the quotient
  in double precision differs from the exact quotient by at most the relative error
  \<open>2^-50\<close>.
\<close>

lemma doubleQuotient_error:
  assumes "0 < m" "0 < mean xs"
  shows "0 < doubleInterval m xs"
    and "\<bar>doubleQuotient m xs - bpmQuotient m xs\<bar> \<le> bpmQuotient m xs / 2 ^ 50"
proof -
  define l :: real where "l = 1 - 1 / 2 ^ 53"
  define h :: real where "h = 1 + 1 / 2 ^ 53"
  define M where "M = real_of_int m"
  define mu where "mu = mean xs"
  define F0 where "F0 = 7 / 10 * M + 3 / 10 * mu"
  have l: "0 < l" "l \<le> 1" and h: "1 \<le> h" by (simp_all add: l_def h_def)
  have M: "0 < M" and mu: "0 < mu" using assms by (simp_all add: M_def mu_def)
  have F0: "0 < F0" using M mu by (simp add: F0_def add_pos_pos)
  note r = fl64_rounded [folded l_def h_def]
  have c7: "7 / 10 * (1 * l) \<le> fl64 (7 / 10) \<and> fl64 (7 / 10) \<le> 7 / 10 * (1 * h)"
    by (rule r) simp_all
  have c3: "3 / 10 * (1 * l) \<le> fl64 (3 / 10) \<and> fl64 (3 / 10) \<le> 3 / 10 * (1 * h)"
    by (rule r) simp_all
  have "(M * (7 / 10)) * (1 * (1 * l)) \<le> M * fl64 (7 / 10) \<and>
        M * fl64 (7 / 10) \<le> (M * (7 / 10)) * (1 * (1 * h))"
    by (rule scaled_product [of M 1 M 1, OF M _ _ _ _ _ conjunct1 [OF c7] conjunct2 [OF c7]])
       (use l in simp_all)
  then have a: "(M * (7 / 10)) * (l * l) \<le> fl64 (M * fl64 (7 / 10)) \<and>
        fl64 (M * fl64 (7 / 10)) \<le> (M * (7 / 10)) * (h * h)"
    using r [of "M * (7 / 10)" "l" "M * fl64 (7 / 10)" "h"] M l by simp
  have p1: "7 / 10 * M * l ^ 3 \<le> fl64 (M * fl64 (7 / 10)) \<and>
        fl64 (M * fl64 (7 / 10)) \<le> 7 / 10 * M * h ^ 3"
  proof -
    have "l ^ 3 \<le> l * l" using l by (simp add: power3_eq_cube mult_left_le)
    then have "7 / 10 * M * l ^ 3 \<le> (M * (7 / 10)) * (l * l)"
      using M by (simp add: mult_left_mono)
    moreover have "h * h \<le> h ^ 3" using h by (simp add: power3_eq_cube)
    then have "(M * (7 / 10)) * (h * h) \<le> 7 / 10 * M * h ^ 3"
      using M by (simp add: mult_left_mono)
    ultimately show ?thesis using a by linarith
  qed
  have avg: "mu * (1 * l) \<le> fl64 mu \<and> fl64 mu \<le> mu * (1 * h)"
    by (rule r) (use mu in simp_all)
  have "(mu * (3 / 10)) * ((1 * l) * (1 * l)) \<le> fl64 mu * fl64 (3 / 10) \<and>
        fl64 mu * fl64 (3 / 10) \<le> (mu * (3 / 10)) * ((1 * h) * (1 * h))"
    by (rule scaled_product [OF mu _ conjunct1 [OF avg] conjunct2 [OF avg] _ _
          conjunct1 [OF c3] conjunct2 [OF c3]]) (use l in simp_all)
  then have "(mu * (3 / 10)) * ((l * l) * l) \<le> fl64 (fl64 mu * fl64 (3 / 10)) \<and>
        fl64 (fl64 mu * fl64 (3 / 10)) \<le> (mu * (3 / 10)) * ((h * h) * h)"
    using r [of "mu * (3 / 10)" "l * l" "fl64 mu * fl64 (3 / 10)" "h * h"] mu l by simp
  then have p2: "3 / 10 * mu * l ^ 3 \<le> fl64 (fl64 mu * fl64 (3 / 10)) \<and>
        fl64 (fl64 mu * fl64 (3 / 10)) \<le> 3 / 10 * mu * h ^ 3"
    by (simp add: power3_eq_cube mult_ac)
  define fin where "fin = fl64 (fl64 (M * fl64 (7 / 10)) + fl64 (fl64 mu * fl64 (3 / 10)))"
  have fin_eq: "doubleInterval m xs = fin"
    by (simp add: doubleInterval_def fin_def M_def mu_def)
  have "F0 * l ^ 3 \<le> fl64 (M * fl64 (7 / 10)) + fl64 (fl64 mu * fl64 (3 / 10)) \<and>
        fl64 (M * fl64 (7 / 10)) + fl64 (fl64 mu * fl64 (3 / 10)) \<le> F0 * h ^ 3"
    using p1 p2 by (simp add: F0_def algebra_simps)
  then have fin: "F0 * (l ^ 3 * l) \<le> fin \<and> fin \<le> F0 * (h ^ 3 * h)"
    unfolding fin_def using r [of F0 "l ^ 3" _ "h ^ 3"] F0 l by simp
  have "0 < F0 * (l ^ 3 * l)" using F0 l by simp
  then have finpos: "0 < fin" using fin by linarith
  then show "0 < doubleInterval m xs" by (simp add: fin_eq)
  define q where "q = fl64 (60000 / fin)"
  define Q where "Q = 60000 / F0"
  have Q: "0 < Q" using F0 by (simp add: Q_def)
  have "Q * (1 / (h ^ 3 * h)) \<le> 60000 / fin \<and> 60000 / fin \<le> Q * (1 / (l ^ 3 * l))"
  proof
    have "60000 / (F0 * (h ^ 3 * h)) \<le> 60000 / fin"
      using fin finpos by (intro divide_left_mono) (simp_all add: F0 mult_pos_pos)
    then show "Q * (1 / (h ^ 3 * h)) \<le> 60000 / fin" by (simp add: Q_def)
    have "60000 / fin \<le> 60000 / (F0 * (l ^ 3 * l))"
      using fin finpos F0 l by (intro divide_left_mono) (simp_all add: mult_pos_pos)
    then show "60000 / fin \<le> Q * (1 / (l ^ 3 * l))" by (simp add: Q_def)
  qed
  then have qb: "Q * (1 / (h ^ 3 * h) * l) \<le> q \<and> q \<le> Q * (1 / (l ^ 3 * l) * h)"
    unfolding q_def using r [of Q "1 / (h ^ 3 * h)" "60000 / fin" "1 / (l ^ 3 * l)"] Q h l
    by simp
  have n1: "1 - 1 / 2 ^ 50 \<le> 1 / (h ^ 3 * h) * l"
    by (simp add: l_def h_def power3_eq_cube field_simps)
  have n2: "1 / (l ^ 3 * l) * h \<le> 1 + 1 / 2 ^ 50"
    by (simp add: l_def h_def power3_eq_cube field_simps)
  have "Q * (1 - 1 / 2 ^ 50) \<le> q"
    using qb mult_left_mono [OF n1, of Q] Q by linarith
  then have lo: "Q - Q / 2 ^ 50 \<le> q" by (simp add: algebra_simps)
  have "q \<le> Q * (1 + 1 / 2 ^ 50)"
    using qb mult_left_mono [OF n2, of Q] Q by linarith
  then have hi: "q \<le> Q + Q / 2 ^ 50" by (simp add: algebra_simps)
  have "\<bar>q - Q\<bar> \<le> Q / 2 ^ 50" using lo hi by linarith
  moreover have "q = doubleQuotient m xs" by (simp add: q_def doubleQuotient_def fin_eq)
  moreover have "Q = bpmQuotient m xs" by (simp add: Q_def F0_def bpmQuotient_def M_def mu_def)
  ultimately show "\<bar>doubleQuotient m xs - bpmQuotient m xs\<bar> \<le> bpmQuotient m xs / 2 ^ 50"
    by simp
qed

text \<open>\<open>bpmOf\<close> of positive intervals, by the quotient in double precision.\<close>

lemma bpmOf_double:
  assumes "xs \<noteq> []" "\<forall>d\<in>set xs. 0 < d"
  shows "bpmOf xs = max 60 (min 200 (js_round (doubleQuotient (upperMiddle xs) xs)))"
proof -
  have "0 < upperMiddle xs" using upperMiddle_mem [OF assms(1)] assms(2) by auto
  then have "0 < doubleInterval (upperMiddle xs) xs"
    using doubleQuotient_error(1) mean_pos [OF assms] by simp
  then show ?thesis
    by (simp add: bpmOf_def Let_def doubleQuotient_def doubleInterval_def upperMiddle_def mean_def)
qed

text \<open>
  Where the exact quotient is within 0.49 of an integer, the rounding errors of the
  doubles do not matter: the result is that integer, clamped.
\<close>

lemma bpmOf_nearest:
  assumes "xs \<noteq> []" "\<forall>d\<in>set xs. 0 < d"
    and "\<bar>bpmQuotient (upperMiddle xs) xs - real_of_int k\<bar> \<le> 49 / 100"
  shows "bpmOf xs = max 60 (min 200 k)"
proof -
  define Q where "Q = bpmQuotient (upperMiddle xs) xs"
  define q where "q = doubleQuotient (upperMiddle xs) xs"
  have m: "0 < upperMiddle xs" using upperMiddle_mem [OF assms(1)] assms(2) by auto
  have mu: "0 < mean xs" by (rule mean_pos [OF assms(1,2)])
  have e: "\<bar>q - Q\<bar> \<le> Q / 2 ^ 50"
    unfolding q_def Q_def by (rule doubleQuotient_error(2) [OF m mu])
  have "1 \<le> real_of_int (upperMiddle xs)" using m by simp
  then have "7 / 10 \<le> 7 / 10 * real_of_int (upperMiddle xs) + 3 / 10 * mean xs"
    using mu by simp
  then have "60000 / (7 / 10 * real_of_int (upperMiddle xs) + 3 / 10 * mean xs)
             \<le> 60000 / (7 / 10)"
    by (intro divide_left_mono) simp_all
  then have "Q \<le> 600000 / 7" by (simp add: Q_def bpmQuotient_def)
  then have "Q / 2 ^ 50 \<le> 600000 / 7 / 2 ^ 50" by (simp add: divide_right_mono)
  also have "\<dots> \<le> 1 / 200" by simp
  finally have e': "\<bar>q - Q\<bar> \<le> 1 / 200" using e by linarith
  have k: "\<bar>Q - real_of_int k\<bar> \<le> 49 / 100" using assms(3) by (simp only: Q_def)
  have "real_of_int k \<le> q + 1 / 2" "q + 1 / 2 < real_of_int k + 1"
    using e' k by linarith+
  then have "js_round q = k" by (simp add: js_round_def floor_eq_iff)
  then show ?thesis using bpmOf_double [OF assms(1,2)] by (simp add: q_def)
qed

subsection \<open>Sample beat sequences\<close>

lemmas estimator_defs = estimateBPM_def recordInterval_def new_AudioAnalyzer_def Let_def






lemma bpmOf_500: "bpmOf [500, 500, 500, 500] = 120"
  using bpmOf_nearest [of "[500, 500, 500, 500]" 120]
  by (simp add: bpmQuotient_def upperMiddle_def mean_def)


















text \<open>
  C8 as stated fails.  Four beats 500 ms apart store only three intervals, so the
  estimator still reports 0 on the fourth beat.
\<close>

theorem four_beats_report_zero:
  "bpmRun new_AudioAnalyzer [1000, 1500, 2000, 2500] = [0, 0, 0, 0]"
  by (simp add: estimator_defs)

text \<open>
  C8, amended.  Five beats exactly 500 ms apart, fed to a fresh estimator, store four
  intervals of 500 ms: the estimator reports 0 on each of the first four beats and
  120 on the fifth.
\<close>

theorem five_beats_report_120:
  "0 < t \<Longrightarrow>
   bpmRun new_AudioAnalyzer [t, t + 500, t + 1000, t + 1500, t + 2000] = [0, 0, 0, 0, 120]"
  by (simp add: estimator_defs bpmOf_500)

text \<open>The first beat at time 1000.\<close>

theorem five_beats_report_120_witness:
  "(0::int) < 1000 \<and>
   bpmRun new_AudioAnalyzer [1000, 1000 + 500, 1000 + 1000, 1000 + 1500, 1000 + 2000]
     = [0, 0, 0, 0, 120]"
  using five_beats_report_120 [of 1000] by simp

section \<open>The band energies\<close>

lemma binFrequency_binSize: "real i * binSize sr (length data) = binFrequency data sr i"
  by (simp add: binSize_def binFrequency_def)

lemma band_step_sums:
  "bassSum (band_step data (binSize sr (length data)) i acc)
     = bassSum acc + (if inBass data sr i then magnitude data i else 0)"
  "bassCount (band_step data (binSize sr (length data)) i acc)
     = bassCount acc + (if inBass data sr i then 1 else 0)"
  "midSum (band_step data (binSize sr (length data)) i acc)
     = midSum acc + (if inMid data sr i then magnitude data i else 0)"
  "midCount (band_step data (binSize sr (length data)) i acc)
     = midCount acc + (if inMid data sr i then 1 else 0)"
  "trebleSum (band_step data (binSize sr (length data)) i acc)
     = trebleSum acc + (if inTreble data sr i then magnitude data i else 0)"
  "trebleCount (band_step data (binSize sr (length data)) i acc)
     = trebleCount acc + (if inTreble data sr i then 1 else 0)"
  by (auto simp: band_step_def Let_def binFrequency_binSize inBass_def inMid_def inTreble_def
        bassRange_def midRange_def trebleRange_def)

lemma band_fold_sums:
  "bassSum (fold (band_step data (binSize sr (length data))) bins acc)
     = bassSum acc + sum_list (map (magnitude data) (filter (inBass data sr) bins))"
  "bassCount (fold (band_step data (binSize sr (length data))) bins acc)
     = bassCount acc + length (filter (inBass data sr) bins)"
  "midSum (fold (band_step data (binSize sr (length data))) bins acc)
     = midSum acc + sum_list (map (magnitude data) (filter (inMid data sr) bins))"
  "midCount (fold (band_step data (binSize sr (length data))) bins acc)
     = midCount acc + length (filter (inMid data sr) bins)"
  "trebleSum (fold (band_step data (binSize sr (length data))) bins acc)
     = trebleSum acc + sum_list (map (magnitude data) (filter (inTreble data sr) bins))"
  "trebleCount (fold (band_step data (binSize sr (length data))) bins acc)
     = trebleCount acc + length (filter (inTreble data sr) bins)"
  by (induction bins arbitrary: acc; simp add: band_step_sums)+

lemma analyzeFrequency_levels:
  "bass (fst (analyzeFrequency data sr a))
     = meanOver data (filter (inBass data sr) (analysisBins sr (length data)))"
  "mid (fst (analyzeFrequency data sr a))
     = meanOver data (filter (inMid data sr) (analysisBins sr (length data)))"
  "treble (fst (analyzeFrequency data sr a))
     = meanOver data (filter (inTreble data sr) (analysisBins sr (length data)))"
  by (simp_all add: analyzeFrequency_def Let_def band_fold_sums band_acc0_def meanOver_def)

lemma analysisBins_bounds:
  assumes "i \<in> set (analysisBins sr (length data))"
  shows "1 \<le> i \<and> i < length data \<and> binFrequency data sr i < 5000"
proof -
  let ?n = "length data"
  let ?x = "min 5000 (real sr / 2) * real ?n / (real sr / 2)"
  from assms have sr: "sr \<noteq> 0" and i: "1 \<le> i" "i < nat \<lfloor>?x\<rfloor>"
    by (auto simp: analysisBins_def maxBin_def split: if_splits)
  from i have "real i + 1 \<le> real_of_int \<lfloor>?x\<rfloor>" by linarith
  then have le: "real i + 1 \<le> ?x" by linarith
  have n: "0 < ?n"
  proof (rule ccontr)
    assume "\<not> 0 < ?n"
    then have "?x = 0" by simp
    with le have "real i + 1 \<le> 0" by (simp only:)
    then show False by linarith
  qed
  have "min 5000 (real sr / 2) * real ?n \<le> (real sr / 2) * real ?n"
    by (intro mult_right_mono) simp_all
  then have "?x \<le> (real sr / 2) * real ?n / (real sr / 2)"
    by (intro divide_right_mono) simp_all
  also have "\<dots> = real ?n" using sr by simp
  finally have "?x \<le> real ?n" .
  with le have "i < ?n" by linarith
  moreover have "binFrequency data sr i < 5000"
  proof -
    have "?x \<le> 5000 * real ?n / (real sr / 2)"
      using sr by (intro divide_right_mono mult_right_mono) simp_all
    with le have "real i + 1 \<le> 5000 * real ?n / (real sr / 2)" by linarith
    then have "(real i + 1) * real sr \<le> 10000 * real ?n" using sr by (simp add: field_simps)
    moreover have "real i * real sr < (real i + 1) * real sr" using sr by (simp add: field_simps)
    ultimately have "real i * real sr < 5000 * (2 * real ?n)" by linarith
    then show ?thesis using n by (simp add: binFrequency_def field_simps)
  qed
  ultimately show ?thesis using i by simp
qed

lemma sum_list_zero:
  "(\<And>i. i \<in> set bins \<Longrightarrow> magnitude data i = 0) \<Longrightarrow> sum_list (map (magnitude data) bins) = 0"
  by (induction bins) simp_all

lemma meanOver_zero: "(\<And>i. i \<in> set bins \<Longrightarrow> magnitude data i = 0) \<Longrightarrow> meanOver data bins = 0"
  by (simp add: meanOver_def sum_list_zero)

lemma magnitude_nonneg: "0 \<le> magnitude data i"
  unfolding magnitude_def by (intro divide_nonneg_pos of_nat_0_le_iff) simp

lemma meanOver_pos:
  assumes "i \<in> set bins" "0 < magnitude data i"
  shows "0 < meanOver data bins"
proof -
  have "magnitude data i \<le> sum_list (map (magnitude data) bins)"
    using assms(1) by (intro member_le_sum_list) (auto simp: magnitude_nonneg)
  with assms(2) have "0 < sum_list (map (magnitude data) bins)" by linarith
  moreover have "bins \<noteq> []" using assms(1) by auto
  ultimately show ?thesis by (simp add: meanOver_def)
qed

lemma magnitude_toneFrame: "i < 1024 \<Longrightarrow> magnitude toneFrame i = (if i = 500 then 1 else 0)"
  by (simp add: magnitude_def toneFrame_def nth_list_update)

lemma analysisBins_default: "analysisBins 44100 1024 = [1..<232]"
  by (simp add: analysisBins_def maxBin_def)

text \<open>
  C7 as stated fails.  A frame of 1024 bins at 44100 Hz whose only non-zero bin is
  bin 500, at about 10.8 kHz: the mean magnitude over the bins from 4000 Hz to
  20000 Hz is positive, yet the treble energy of \<open>analyzeFrequency\<close> is 0, since its
  loop stops below 5000 Hz (bin 232).
\<close>

theorem treble_ignores_high_bins:
  "treble (fst (analyzeFrequency toneFrame 44100 readyAnalyzer)) = 0 \<and>
   0 < bandEnergy_spec toneFrame 44100 4000 20000"
proof -
  have len: "length toneFrame = 1024" by (simp add: toneFrame_def)
  have "treble (fst (analyzeFrequency toneFrame 44100 readyAnalyzer)) = 0"
    by (simp add: analyzeFrequency_levels len analysisBins_default)
       (rule meanOver_zero, simp add: magnitude_toneFrame)
  moreover have "0 < bandEnergy_spec toneFrame 44100 4000 20000"
    unfolding bandEnergy_spec_def
    by (rule meanOver_pos [of 500]) (simp_all add: len binFrequency_def magnitude_toneFrame)
  ultimately show ?thesis by simp
qed

text \<open>
  C7, amended.  Each band energy is the arithmetic mean (0 for no bin) of the
  magnitudes of the bins \<open>1 \<le> i < maxBin\<close> whose frequency
  \<open>i * sampleRate / (2 * binCount)\<close> lies in \<open>[20, 250]\<close> for bass, in
  \<open>(250, 4000]\<close> for mid and in \<open>(4000, 20000]\<close> for treble.  All these bins lie
  below 5000 Hz, so the treble energy is a mean over bins between 4000 Hz and 5000 Hz
  only.
\<close>

theorem analyzeFrequency_bands:
  "bass (fst (analyzeFrequency data sr a))
     = meanOver data (filter (inBass data sr) (analysisBins sr (length data))) \<and>
   mid (fst (analyzeFrequency data sr a))
     = meanOver data (filter (inMid data sr) (analysisBins sr (length data))) \<and>
   treble (fst (analyzeFrequency data sr a))
     = meanOver data (filter (inTreble data sr) (analysisBins sr (length data))) \<and>
   list_all (\<lambda>i. 1 \<le> i \<and> i < length data \<and> binFrequency data sr i < 5000)
     (analysisBins sr (length data))"
  using analysisBins_bounds [of _ sr data]
  by (simp add: analyzeFrequency_levels list_all_iff)

section \<open>One tick of the analysis\<close>

lemma analyzeFrequency_buffers:
  "frequencyData (snd (analyzeFrequency data sr a)) = frequencyData a"
  "timeData (snd (analyzeFrequency data sr a)) = timeData a"
  "previousFrequencyData (snd (analyzeFrequency data sr a)) = previousFrequencyData a"
  "audioContext (snd (analyzeFrequency data sr a)) = audioContext a"
  by (simp_all add: analyzeFrequency_def Let_def)

lemma detectBeat_buffers:
  "frequencyData (snd (detectBeat t tb data sr a)) = frequencyData a"
  "timeData (snd (detectBeat t tb data sr a)) = timeData a"
  "previousFrequencyData (snd (detectBeat t tb data sr a)) = previousFrequencyData a"
  "audioContext (snd (detectBeat t tb data sr a)) = audioContext a"
  by (simp_all add: detectBeat_def Let_def estimateBPM_def split: prod.splits)

lemma length_fillBuffer: "length (fillBuffer buffer frame) = length buffer"
  by (simp add: fillBuffer_def)

text \<open>A tick on an analyzer whose buffers and context are in place.\<close>

lemma analysisBody_ready:
  assumes "frequencyData a = Some fb" "timeData a = Some tb" "audioContext a = Some sr"
    "previousFrequencyData a = Some pb" "length fb \<le> length pb"
  shows "\<exists>r a'. analysisBody tk a =
           (Inr (r, calculateSpectralFlux (fillBuffer fb (freqFrame tk))
                      (Some (fillBuffer fb (freqFrame tk) @ drop (length fb) pb)) sr), a') \<and>
         volume r \<noteq> None \<and> frequency r \<noteq> None \<and> beat r \<noteq> None \<and> timestamp r = t_result tk \<and>
         frequencyData a' = Some (fillBuffer fb (freqFrame tk)) \<and>
         timeData a' = Some (fillBuffer tb (timeFrame tk)) \<and>
         audioContext a' = Some sr \<and>
         previousFrequencyData a' = Some (fillBuffer fb (freqFrame tk) @ drop (length fb) pb)"
proof -
  define data where "data = fillBuffer fb (freqFrame tk)"
  define a2 where
    "a2 = a\<lparr> frequencyData := Some data, timeData := Some (fillBuffer tb (timeFrame tk)) \<rparr>"
  obtain freq a3 where af: "analyzeFrequency data sr a2 = (freq, a3)"
    by (cases "analyzeFrequency data sr a2")
  obtain bt a4 where db: "detectBeat (t_detect tk) (t_bpm tk) data sr a3 = (bt, a4)"
    by (cases "detectBeat (t_detect tk) (t_bpm tk) data sr a3")
  have a3: "frequencyData a3 = Some data" "timeData a3 = Some (fillBuffer tb (timeFrame tk))"
    "previousFrequencyData a3 = Some pb" "audioContext a3 = Some sr"
    using analyzeFrequency_buffers [of data sr a2] af assms by (simp_all add: a2_def)
  have a4: "frequencyData a4 = Some data" "timeData a4 = Some (fillBuffer tb (timeFrame tk))"
    "previousFrequencyData a4 = Some pb" "audioContext a4 = Some sr"
    using detectBeat_buffers [of "t_detect tk" "t_bpm tk" data sr a3] db a3 by simp_all
  have len: "length data \<le> length pb" using assms(5) by (simp add: data_def length_fillBuffer)
  have "analysisBody tk a =
      (Inr (\<lparr> volume = Some (calculateVolume (fillBuffer tb (timeFrame tk))),
              frequency = Some freq, beat = Some bt, timestamp = t_result tk \<rparr>,
            calculateSpectralFlux data (Some (data @ drop (length data) pb)) sr),
       a4\<lparr> previousFrequencyData := Some (data @ drop (length data) pb) \<rparr>)"
    using assms(1-4) af db a4 len
    by (simp add: analysisBody_def Let_def data_def [symmetric] a2_def [symmetric]
          updateHistory_def)
  then show ?thesis using a4 by (simp add: data_def length_fillBuffer)
qed

text \<open>Against a previous frame that starts with the current one, the flux loop adds nothing.\<close>

lemma magnitude_append: "i < length xs \<Longrightarrow> magnitude (xs @ ys) i = magnitude xs i"
  by (simp add: magnitude_def nth_append)

lemma flux_fold_same:
  "\<forall>i\<in>set bins. i < length current \<Longrightarrow>
   fold (flux_step current (current @ rest)) bins flux = flux"
  by (induction bins arbitrary: flux) (simp_all add: flux_step_def magnitude_append)

lemma energyBins_in_range: "i \<in> set (energyBins current sr) \<Longrightarrow> i < length current"
  by (simp add: energyBins_def)

lemma calculateSpectralFlux_same:
  "calculateSpectralFlux current (Some (current @ rest)) sr =
     (if sr = 0 then NaN
      else js_div (Num 0) (Num (real (binOf 4000 (length current) sr)
                                 - real (binOf 20 (length current) sr))))"
  by (simp add: calculateSpectralFlux_def flux_fold_same energyBins_in_range)

lemma tickSpectralFlux_ready:
  assumes "frequencyData a = Some fb" "timeData a = Some tb" "audioContext a = Some sr"
    "previousFrequencyData a = Some pb" "length fb \<le> length pb"
  shows "tickSpectralFlux tk a =
     Some (if sr = 0 then NaN
           else js_div (Num 0) (Num (real (binOf 4000 (length fb) sr)
                                       - real (binOf 20 (length fb) sr))))"
proof -
  obtain r a' where "analysisBody tk a =
           (Inr (r, calculateSpectralFlux (fillBuffer fb (freqFrame tk))
                      (Some (fillBuffer fb (freqFrame tk) @ drop (length fb) pb)) sr), a')"
    using analysisBody_ready [OF assms, of tk] by blast
  then show ?thesis
    by (simp add: tickSpectralFlux_def calculateSpectralFlux_same length_fillBuffer)
qed

lemma getAnalysisData_ready:
  assumes "isInitialized a" "analyserNode a \<noteq> None"
    "frequencyData a = Some fb" "timeData a = Some tb" "audioContext a = Some sr"
    "previousFrequencyData a = Some pb" "length fb \<le> length pb"
  shows "frequencyData (snd (getAnalysisData tk a)) = Some (fillBuffer fb (freqFrame tk)) \<and>
         timeData (snd (getAnalysisData tk a)) = Some (fillBuffer tb (timeFrame tk)) \<and>
         audioContext (snd (getAnalysisData tk a)) = Some sr \<and>
         previousFrequencyData (snd (getAnalysisData tk a))
           = Some (fillBuffer fb (freqFrame tk) @ drop (length fb) pb)"
proof -
  obtain r a' where "analysisBody tk a =
           (Inr (r, calculateSpectralFlux (fillBuffer fb (freqFrame tk))
                      (Some (fillBuffer fb (freqFrame tk) @ drop (length fb) pb)) sr), a')"
     and "frequencyData a' = Some (fillBuffer fb (freqFrame tk))"
         "timeData a' = Some (fillBuffer tb (timeFrame tk))"
         "audioContext a' = Some sr"
         "previousFrequencyData a' = Some (fillBuffer fb (freqFrame tk) @ drop (length fb) pb)"
    using analysisBody_ready [OF assms(3-7), of tk] by blast
  then show ?thesis using assms(1,2) by (auto simp: getAnalysisData_def)
qed

lemma analysisBody_fails:
  "frequencyData a = None \<or> timeData a = None \<or> audioContext a = None \<Longrightarrow>
   \<exists>e. fst (analysisBody tk a) = Inl e"
  by (auto simp: analysisBody_def Let_def split: option.splits)

lemma analysisBody_previous:
  assumes "frequencyData a = Some fb" "timeData a = Some tb" "audioContext a = Some sr"
    "previousFrequencyData a = None \<or> (\<exists>pb. previousFrequencyData a = Some pb \<and> length pb < length fb)"
  shows "\<exists>e. fst (analysisBody tk a) = Inl e"
proof -
  define data where "data = fillBuffer fb (freqFrame tk)"
  define a2 where
    "a2 = a\<lparr> frequencyData := Some data, timeData := Some (fillBuffer tb (timeFrame tk)) \<rparr>"
  obtain freq a3 where af: "analyzeFrequency data sr a2 = (freq, a3)"
    by (cases "analyzeFrequency data sr a2")
  obtain bt a4 where db: "detectBeat (t_detect tk) (t_bpm tk) data sr a3 = (bt, a4)"
    by (cases "detectBeat (t_detect tk) (t_bpm tk) data sr a3")
  have "previousFrequencyData a3 = previousFrequencyData a"
    using analyzeFrequency_buffers [of data sr a2] af by (simp add: a2_def)
  then have a4: "previousFrequencyData a4 = previousFrequencyData a"
    using detectBeat_buffers [of "t_detect tk" "t_bpm tk" data sr a3] db by simp
  have len: "length data = length fb" by (simp add: data_def length_fillBuffer)
  show ?thesis
    using assms af db a4 len
    by (auto simp: analysisBody_def Let_def data_def [symmetric] a2_def [symmetric]
          updateHistory_def)
qed

text \<open>
  C9 as stated fails.  An analyzer that was never initialised returns \<open>null\<close> for a
  tick, not a zero-valued result.
\<close>

theorem getAnalysisData_returns_null:
  "fst (getAnalysisData silentTick new_AudioAnalyzer) = None"
  by (simp add: getAnalysisData_def new_AudioAnalyzer_def)

text \<open>
  C9, amended.  \<open>getAnalysisData\<close> does not raise.  It returns a result exactly when
  the analyzer is initialised, has its analyser node, audio context and buffers, and
  the previous-frame buffer is at least as long as the frequency buffer; the result
  then has its volume, frequency and beat and the tick's timestamp.  In every other
  case (not initialised, or a step of the analysis throws) it returns \<open>null\<close>, never
  a zero-valued result.
\<close>

theorem getAnalysisData_result:
  "(fst (getAnalysisData tk a) \<noteq> None) =
     (isInitialized a \<and> analyserNode a \<noteq> None \<and> audioContext a \<noteq> None \<and> timeData a \<noteq> None \<and>
      (\<exists>fb pb. frequencyData a = Some fb \<and> previousFrequencyData a = Some pb \<and>
               length fb \<le> length pb)) \<and>
   (case fst (getAnalysisData tk a) of
      None \<Rightarrow> True
    | Some r \<Rightarrow> volume r \<noteq> None \<and> frequency r \<noteq> None \<and> beat r \<noteq> None \<and>
               timestamp r = t_result tk)"
proof (cases "isInitialized a \<and> analyserNode a \<noteq> None")
  case False
  then show ?thesis by (auto simp: getAnalysisData_def)
next
  case init: True
  then have g: "fst (getAnalysisData tk a) =
      (case fst (analysisBody tk a) of Inl e \<Rightarrow> None | Inr (r, fl) \<Rightarrow> Some r)"
    by (auto simp: getAnalysisData_def split: prod.splits sum.splits)
  show ?thesis
  proof (cases "\<exists>fb tb sr pb. frequencyData a = Some fb \<and> timeData a = Some tb \<and>
      audioContext a = Some sr \<and> previousFrequencyData a = Some pb \<and> length fb \<le> length pb")
    case True
    then obtain fb tb sr pb where h: "frequencyData a = Some fb" "timeData a = Some tb"
      "audioContext a = Some sr" "previousFrequencyData a = Some pb" "length fb \<le> length pb"
      by blast
    from analysisBody_ready [OF h, of tk] obtain r a' fl where
      "analysisBody tk a = (Inr (r, fl), a')" "volume r \<noteq> None" "frequency r \<noteq> None"
      "beat r \<noteq> None" "timestamp r = t_result tk" by blast
    then show ?thesis using init h by (simp add: g)
  next
    case False
    have "\<exists>e. fst (analysisBody tk a) = Inl e"
    proof (cases "frequencyData a = None \<or> timeData a = None \<or> audioContext a = None")
      case True
      then show ?thesis by (rule analysisBody_fails)
    next
      case nn: False
      then obtain fb tb sr where h: "frequencyData a = Some fb" "timeData a = Some tb"
        "audioContext a = Some sr" by auto
      with False have "previousFrequencyData a = None \<or>
          (\<exists>pb. previousFrequencyData a = Some pb \<and> length pb < length fb)"
        by (cases "previousFrequencyData a") auto
      then show ?thesis using analysisBody_previous [OF h] by blast
    qed
    then have "fst (getAnalysisData tk a) = None" by (auto simp: g)
    then show ?thesis using False by auto
  qed
qed

text \<open>The default analyzer on its first tick: every condition holds and a result comes back.\<close>

theorem getAnalysisData_result_witness:
  "isInitialized readyAnalyzer \<and> analyserNode readyAnalyzer = Some 1024 \<and>
   audioContext readyAnalyzer = Some 44100 \<and> timeData readyAnalyzer = Some (replicate 1024 0) \<and>
   frequencyData readyAnalyzer = Some (replicate 1024 0) \<and>
   previousFrequencyData readyAnalyzer = Some (replicate 1024 0) \<and>
   fst (getAnalysisData silentTick readyAnalyzer) \<noteq> None"
  using getAnalysisData_result [of silentTick readyAnalyzer]
  by (simp add: analyzer_defs)

section \<open>The spectral flux\<close>

text \<open>
  Called with a previous frame as long as the current one, \<open>calculateSpectralFlux\<close>
  computes the specification's formula (when the band from 20 Hz to 4000 Hz is not
  empty and ends within the frame).
\<close>

lemma flux_fold_spec:
  "\<forall>i\<in>set bins. i < length previous \<Longrightarrow>
   fold (flux_step current previous) bins flux =
     flux + sum_list (map (\<lambda>i. max 0 (magnitude current i - magnitude previous i)) bins)"
  by (induction bins arbitrary: flux) (simp_all add: flux_step_def Let_def max_def)

lemma calculateSpectralFlux_spec:
  assumes "length previous = length current" "sr \<noteq> 0"
    "binOf 4000 (length current) sr \<le> length current"
    "binOf 20 (length current) sr < binOf 4000 (length current) sr"
  shows "calculateSpectralFlux current (Some previous) sr
           = Num (spectralFlux_spec current previous sr)"
proof -
  have "\<forall>i\<in>set (energyBins current sr). i < length previous"
    using assms(1) by (simp add: energyBins_in_range)
  moreover have "real (length (energyBins current sr))
      = real (binOf 4000 (length current) sr) - real (binOf 20 (length current) sr)"
    using assms(3,4) by (simp add: energyBins_def min_absorb1 of_nat_diff)
  moreover have "real (binOf 4000 (length current) sr) - real (binOf 20 (length current) sr) \<noteq> 0"
    using assms(4) by simp
  ultimately show ?thesis
    using assms(2) by (simp add: calculateSpectralFlux_def spectralFlux_spec_def flux_fold_spec)
qed

lemma magnitude_replicate: "i < n \<Longrightarrow> magnitude (replicate n b) i = real (unat b) / 255"
  by (simp add: magnitude_def)

text \<open>
  C5: the code departs from the claim.  The default analyzer sees a silent frame and
  then a frame with every bin at full scale.  The specification's flux of the second
  frame against the first is 1, and that is what \<open>calculateSpectralFlux\<close> returns
  when given the first frame as the previous one.  But \<open>getAnalysisData\<close> calls
  \<open>updateHistory\<close> before \<open>calculateSpectralFlux\<close>, so the flux of the second tick
  is computed against the second frame itself and is 0.
\<close>

theorem spectralFlux_always_zero:
  "tickSpectralFlux loudTick (snd (getAnalysisData silentTick readyAnalyzer)) = Some (Num 0) \<and>
   previousFrequencyData (snd (getAnalysisData silentTick readyAnalyzer)) = Some silentFrame \<and>
   spectralFlux_spec loudFrame silentFrame 44100 = 1 \<and>
   calculateSpectralFlux loudFrame (Some silentFrame) 44100 = Num 1"
proof -
  have a0: "isInitialized readyAnalyzer" "analyserNode readyAnalyzer \<noteq> None"
    "frequencyData readyAnalyzer = Some (replicate 1024 0)"
    "timeData readyAnalyzer = Some (replicate 1024 0)"
    "audioContext readyAnalyzer = Some 44100"
    "previousFrequencyData readyAnalyzer = Some (replicate 1024 0)"
    by (simp_all add: analyzer_defs)
  have fill: "fillBuffer (replicate 1024 0) silentFrame = silentFrame"
    by (simp add: fillBuffer_def silentFrame_def)
  have a1: "frequencyData (snd (getAnalysisData silentTick readyAnalyzer)) = Some silentFrame"
    "timeData (snd (getAnalysisData silentTick readyAnalyzer))
       = Some (fillBuffer (replicate 1024 0) restingWave)"
    "audioContext (snd (getAnalysisData silentTick readyAnalyzer)) = Some 44100"
    "previousFrequencyData (snd (getAnalysisData silentTick readyAnalyzer)) = Some silentFrame"
    using getAnalysisData_ready [OF a0, of silentTick]
    by (simp_all add: silentTick_def fill)
  have len: "length silentFrame = 1024" "length loudFrame = 1024"
    by (simp_all add: silentFrame_def loudFrame_def)
  have zero: "tickSpectralFlux loudTick (snd (getAnalysisData silentTick readyAnalyzer))
      = Some (Num 0)"
    using tickSpectralFlux_ready [OF a1, of loudTick] by (simp add: len binOf_default)
  have spec: "spectralFlux_spec loudFrame silentFrame 44100 = 1"
    by (simp add: spectralFlux_spec_def energyBins_def binOf_default loudFrame_def
          silentFrame_def magnitude_replicate upt_rec)
  have "calculateSpectralFlux loudFrame (Some silentFrame) 44100
      = Num (spectralFlux_spec loudFrame silentFrame 44100)"
    by (rule calculateSpectralFlux_spec) (simp_all add: len binOf_default)
  then show ?thesis using zero spec a1 by simp
qed

text \<open>So the flux of the second tick is not the specification's flux.\<close>

theorem spectralFlux_always_zero_witness:
  "tickSpectralFlux loudTick (snd (getAnalysisData silentTick readyAnalyzer))
     \<noteq> Some (Num (spectralFlux_spec loudFrame silentFrame 44100))"
  using spectralFlux_always_zero by simp

section \<open>Beats before the energy history is full\<close>

text \<open>The energy path cannot fire while the variance still has its initial value 0.\<close>

lemma energy_path_waits:
  assumes "bd_variance a = Num 0"
    "length (pushEnergy (en_total (calculateEnergy data sr)) a) < bd_historySize a"
    "detected (fst (detectBeat t tb data sr a))"
  shows "btype (fst (detectBeat t tb data sr a)) = Some Kick"
  using assms
  by (auto simp: detectBeat_def Let_def noBeat_def split: if_splits prod.splits)

text \<open>
  C6: the code departs from the claim.  The default analyzer, with an empty energy
  history of capacity 43, hears the kick frame on its first tick.  The average is
  still its initial 0, so the kick threshold is 0 and the kick path reports a beat
  with one sample in the history.
\<close>

theorem kick_fires_on_first_tick:
  "bd_energyHistory readyAnalyzer = [] \<and> bd_historySize readyAnalyzer = 43 \<and>
   detected (fst (detectBeat 1000 1000 kickFrame 44100 readyAnalyzer)) \<and>
   btype (fst (detectBeat 1000 1000 kickFrame 44100 readyAnalyzer)) = Some Kick \<and>
   bd_energyHistory (snd (detectBeat 1000 1000 kickFrame 44100 readyAnalyzer))
     = [Num (1 / 185)] \<and>
   bd_average (snd (detectBeat 1000 1000 kickFrame 44100 readyAnalyzer)) = Num 0"
proof -
  have "bd_energyHistory (snd (detectBeat 1000 1000 kickFrame 44100 readyAnalyzer))
          = [Num (1 / 185)] \<and>
        bd_average (snd (detectBeat 1000 1000 kickFrame 44100 readyAnalyzer)) = Num 0"
    by (simp add: detectBeat_def calculateEnergy_kickFrame analyzer_defs pushEnergy_def
          Let_def estimateBPM_def recordInterval_def js_sub_def)
  then show ?thesis by (simp add: detectBeat_kickFrame) (simp add: analyzer_defs)
qed

end
